theory Spec2Isabelle
  imports Complex_Main "HOL-Library.AList" "HOL-Library.Log_Nat"
begin

section \<open>Python values shared by the services\<close>

text \<open>
  The services are written in Python. Python's unbounded integers are \<open>int\<close>. A Python
  float is a double, modelled by the rational number it denotes; \<open>round_double\<close> below is
  the rounding of IEEE 754 arithmetic, and the float expressions that are truncated to
  an integer (the durations in milliseconds, the step, the quotient that gives the number
  of windows, the probability of an event) round each operation with it. Exceptions are
  values: a function that can raise returns \<open>py_exn + 'a\<close>, \<open>Inl\<close> carrying the
  exception.
\<close>

datatype exn_kind =
    ValueError | FileNotFoundError | PermissionError | RuntimeError
  | ZeroDivisionError | OSError | MemoryError | KeyboardInterrupt | OtherException

datatype py_exn = Raise exn_kind string

fun exn_kind_of :: "py_exn \<Rightarrow> exn_kind" where
  "exn_kind_of (Raise k m) = k"

text \<open>\<open>str(e)\<close>: the message of the exception.\<close>

fun str_exn :: "py_exn \<Rightarrow> string" where
  "str_exn (Raise k m) = m"

text \<open>
  \<open>except Exception\<close> catches every class above except \<open>KeyboardInterrupt\<close>,
  which derives from \<open>BaseException\<close> only.
\<close>

definition is_Exception :: "py_exn \<Rightarrow> bool" where
  "is_Exception e = (exn_kind_of e \<noteq> KeyboardInterrupt)"

text \<open>\<open>int(x)\<close> on a float truncates towards zero.\<close>

definition py_int :: "rat \<Rightarrow> int" where
  "py_int x = (if 0 \<le> x then \<lfloor>x\<rfloor> else \<lceil>x\<rceil>)"

text \<open>Python's \<open>round\<close>: to the nearest integer, a tie going to the even one.\<close>

definition py_round :: "rat \<Rightarrow> int" where
  "py_round x =
     (let f = \<lfloor>x\<rfloor>; d = x - of_int f
      in if d < 1 / 2 then f
         else if 1 / 2 < d then f + 1
         else if even f then f else f + 1)"

text \<open>
  Doubles. \<open>floor_log2 x\<close> is the exponent \<open>e\<close> with \<open>2^e \<le> x < 2^(e+1)\<close> of a positive
  rational. \<open>round_double x\<close> is the double nearest to \<open>x\<close>, a tie going to the even
  significand: \<open>x\<close> is rounded to a multiple of \<open>2^(e - 52)\<close>, which leaves 53 significant
  bits. This is the result of an IEEE 754 operation whose exact result is \<open>x\<close>, for
  results in the range of normal doubles (no overflow, no subnormals). \<open>float_of_int\<close> is
  the conversion of an \<open>int\<close> operand, \<open>py_float\<close> the double that a decimal literal
  denotes.
\<close>

definition floor_log2 :: "rat \<Rightarrow> int" where
  "floor_log2 x =
     (let (p, q) = quotient_of x; e = bitlen p - bitlen q
      in if 2 powi e \<le> x then e else e - 1)"

definition round_double :: "rat \<Rightarrow> rat" where
  "round_double x =
     (if x = 0 then 0
      else let q = 2 powi (floor_log2 \<bar>x\<bar> - 52)
           in sgn x * of_int (py_round (\<bar>x\<bar> / q)) * q)"

definition float_of_int :: "int \<Rightarrow> rat" where
  "float_of_int k = round_double (of_int k)"

definition py_float :: "rat \<Rightarrow> rat" where
  "py_float x = round_double x"

section \<open>AudioProcessor\<close>

record AudioProcessor =
  segment_duration :: rat
  target_size :: "int \<times> int"
  overlap_ratio :: rat
  min_segment_duration :: rat
  temp_dir :: "string option"

text \<open>
  \<open>AudioProcessor.__init__\<close>: the checks in the order of the source. \<open>target_size\<close> is a
  pair of integers by its type, so of the checks on it only the positivity one remains.
\<close>

definition AudioProcessor_init ::
  "rat \<Rightarrow> int \<times> int \<Rightarrow> rat \<Rightarrow> rat \<Rightarrow> py_exn + AudioProcessor" where
  "AudioProcessor_init sd ts ovr msd =
     (if sd \<le> 0 then Inl (Raise ValueError ''segment_duration must be positive'')
      else if fst ts \<le> 0 \<or> snd ts \<le> 0
        then Inl (Raise ValueError ''target_size values must be positive integers'')
      else if \<not> (0 \<le> ovr \<and> ovr < 1)
        then Inl (Raise ValueError ''overlap_ratio must be in [0, 1)'')
      else if msd \<le> 0 then Inl (Raise ValueError ''min_segment_duration must be positive'')
      else if sd < msd
        then Inl (Raise ValueError ''min_segment_duration cannot exceed segment_duration'')
      else Inr \<lparr>segment_duration = sd, target_size = ts, overlap_ratio = ovr,
                min_segment_duration = msd, temp_dir = None\<rparr>)"

text \<open>The processor built by \<open>AudioProcessor()\<close>, all parameters at their defaults.\<close>

definition default_processor :: AudioProcessor where
  "default_processor =
     \<lparr>segment_duration = 3, target_size = (128, 128), overlap_ratio = 1 / 2,
      min_segment_duration = 1, temp_dir = None\<rparr>"

subsection \<open>Window arithmetic of \<open>segment_audio_file\<close>\<close>

text \<open>
  An audio clip enters the window arithmetic through its length in milliseconds only
  (\<open>len(audio)\<close>), so a clip is modelled by that length. pydub's slice
  \<open>audio[start:end]\<close> clips both bounds to the clip and has the length between them;
  \<open>segment + silence\<close> has the sum of the two lengths.
\<close>

definition slice_len :: "int \<Rightarrow> int \<Rightarrow> int \<Rightarrow> int" where
  "slice_len duration start end =
     max 0 (min (max 0 end) duration - min (max 0 start) duration)"

text \<open>
  \<open>int(self.segment_duration * 1000)\<close>, \<open>int(self.min_segment_duration * 1000)\<close> and
  \<open>int(segment_duration_ms * (1 - self.overlap_ratio))\<close>: each product and the difference
  is a double operation, and \<open>int\<close> truncates the result.
\<close>

definition segment_duration_ms :: "AudioProcessor \<Rightarrow> int" where
  "segment_duration_ms p = py_int (round_double (segment_duration p * 1000))"

definition min_segment_duration_ms :: "AudioProcessor \<Rightarrow> int" where
  "min_segment_duration_ms p = py_int (round_double (min_segment_duration p * 1000))"

definition step_size_ms :: "AudioProcessor \<Rightarrow> int" where
  "step_size_ms p =
     py_int (round_double (float_of_int (segment_duration_ms p)
                           * round_double (1 - overlap_ratio p)))"

text \<open>
  The branch on the clip's length: a clip no longer than one segment is padded up to the
  minimum duration and gives one window; a longer clip gives
  \<open>max(1, int((duration_ms - segment_duration_ms) / step_size_ms) + 1)\<close> windows. The
  division is Python's true division of two integers: it raises on a zero step and
  otherwise is the double nearest to the quotient. The result is the (possibly padded)
  clip length and the number of windows.
\<close>

definition count_segments :: "AudioProcessor \<Rightarrow> int \<Rightarrow> py_exn + (int \<times> int)" where
  "count_segments p duration_ms =
     (if duration_ms \<le> segment_duration_ms p then
        (if duration_ms < min_segment_duration_ms p
         then Inr (duration_ms + (min_segment_duration_ms p - duration_ms), 1)
         else Inr (duration_ms, 1))
      else if step_size_ms p = 0 then Inl (Raise ZeroDivisionError ''division by zero'')
      else Inr (duration_ms,
                max 1 (py_int (round_double
                                 (of_int (duration_ms - segment_duration_ms p)
                                  / of_int (step_size_ms p))) + 1)))"

text \<open>
  One window, as the loop body computes it: the index \<open>i\<close>, \<open>start_ms\<close>, \<open>end_ms\<close>, the
  length of the slice (\<open>natural_len\<close>) and the length after the padding rules
  (\<open>padded_len\<close>).
\<close>

record window =
  win_index :: int
  start_ms :: int
  end_ms :: int
  natural_len :: int
  padded_len :: int

text \<open>
  The \<open>if\<close>/\<open>elif\<close> chain that pads a slice with trailing silence. The comparison of
  the length with \<open>segment_duration_ms * 0.8\<close> is written with the exact product.
\<close>

definition pad_segment :: "AudioProcessor \<Rightarrow> int \<Rightarrow> int" where
  "pad_segment p n =
     (if n < min_segment_duration_ms p then n + (min_segment_duration_ms p - n)
      else if n < segment_duration_ms p then
        (if of_int (segment_duration_ms p) * (8 / 10) \<le> (of_int n :: rat)
         then n + (segment_duration_ms p - n) else n)
      else n)"

definition cut_window :: "AudioProcessor \<Rightarrow> int \<Rightarrow> int \<Rightarrow> window" where
  "cut_window p duration_ms i =
     (let start = i * step_size_ms p;
          end = min (start + segment_duration_ms p) duration_ms;
          n = slice_len duration_ms start end
      in \<lparr>win_index = i, start_ms = start, end_ms = end, natural_len = n,
          padded_len = pad_segment p n\<rparr>)"

text \<open>The windows of \<open>for i in range(num_segments)\<close>, in loop order.\<close>

definition segment_windows :: "AudioProcessor \<Rightarrow> int \<Rightarrow> py_exn + window list" where
  "segment_windows p duration_ms =
     (case count_segments p duration_ms of
        Inl e \<Rightarrow> Inl e
      | Inr (d, num_segments) \<Rightarrow>
          Inr (map (\<lambda>i. cut_window p d (int i)) [0 ..< nat num_segments]))"

subsection \<open>The world outside the services\<close>

text \<open>
  A two-dimensional numpy array is a list of rows. \<open>shape\<close> and \<open>array_size\<close> are numpy's
  \<open>shape\<close> and \<open>size\<close>; \<open>rect\<close> says that all rows have the same length, which numpy
  guarantees.
\<close>

type_synonym array2 = "rat list list"

type_synonym image = "rat list list list"

definition ncols :: "array2 \<Rightarrow> nat" where
  "ncols a = (case a of [] \<Rightarrow> 0 | r # _ \<Rightarrow> length r)"

definition shape :: "array2 \<Rightarrow> nat \<times> nat" where
  "shape a = (length a, ncols a)"

definition array_size :: "array2 \<Rightarrow> nat" where
  "array_size a = length a * ncols a"

definition rect :: "array2 \<Rightarrow> bool" where
  "rect a = list_all (\<lambda>r. length r = ncols a) a"

text \<open>The slice \<open>xs[:n]\<close>; a negative \<open>n\<close> counts from the end.\<close>

definition slice_to :: "int \<Rightarrow> 'a list \<Rightarrow> 'a list" where
  "slice_to n xs = (if 0 \<le> n then take (nat n) xs else take (length xs - nat (- n)) xs)"

text \<open>The keyword arguments that \<open>generate_mel_spectrogram\<close> fixes for librosa.\<close>

record mel_params =
  n_mels :: int
  n_fft :: int
  hop_length :: int
  fmin :: int
  fmax :: int
  mel_window :: string

text \<open>
  Everything the services call and do not define: the file system, pydub, librosa, scipy,
  matplotlib and the two inference back ends. Each is a function of the arguments the
  source passes, returning the value or the exception raised. The file system is read as
  it answers, so a file written by one call is seen by a later one only if the world's
  answers say so.
\<close>

record world =
  path_exists :: "string \<Rightarrow> bool"
  path_readable :: "string \<Rightarrow> bool"
  path_writable :: "string \<Rightarrow> bool"
  makedirs :: "string \<Rightarrow> py_exn option"
  mkdtemp :: "py_exn + string"
  from_file :: "string \<Rightarrow> py_exn + int"
  export_wav :: "string \<Rightarrow> int \<Rightarrow> py_exn option"
  librosa_load :: "string \<Rightarrow> rat \<Rightarrow> py_exn + (rat list option \<times> int option)"
  preemphasis :: "rat list \<Rightarrow> py_exn + rat list"
  melspectrogram :: "rat list \<Rightarrow> int \<Rightarrow> mel_params \<Rightarrow> py_exn + array2 option"
  power_to_db :: "array2 \<Rightarrow> rat \<Rightarrow> py_exn + array2"
  zoom :: "array2 \<Rightarrow> rat \<times> rat \<Rightarrow> py_exn + array2"
  savefig :: "array2 \<Rightarrow> string \<Rightarrow> py_exn option"
  read_lines :: "string \<Rightarrow> py_exn + string list"
  tflite_available :: bool
  tflite_load :: "string \<Rightarrow> py_exn option"
  keras_load :: "string \<Rightarrow> py_exn option"
  load_img :: "string \<Rightarrow> py_exn + image"
  run_model :: "bool \<Rightarrow> image \<Rightarrow> py_exn + rat list list option"

text \<open>\<open>os.path.dirname\<close> and \<open>os.path.join\<close> on POSIX paths, and \<open>str\<close> of a natural number.\<close>

definition dirname :: "string \<Rightarrow> string" where
  "dirname p =
     (let head = rev (dropWhile (\<lambda>c. c \<noteq> CHR ''/'') (rev p))
      in if head \<noteq> [] \<and> \<not> list_all (\<lambda>c. c = CHR ''/'') head
         then rev (dropWhile (\<lambda>c. c = CHR ''/'') (rev head)) else head)"

definition path_join :: "string \<Rightarrow> string \<Rightarrow> string" where
  "path_join a b =
     (if b \<noteq> [] \<and> hd b = CHR ''/'' then b
      else if a = [] \<or> last a = CHR ''/'' then a @ b
      else a @ ''/'' @ b)"

definition digit_char :: "nat \<Rightarrow> char" where
  "digit_char d = char_of (48 + d)"

function str_nat :: "nat \<Rightarrow> string" where
  "str_nat n = (if n < 10 then [digit_char n] else str_nat (n div 10) @ [digit_char (n mod 10)])"
  by pat_completeness auto
termination
  by (relation "measure id") auto

declare str_nat.simps [simp del]

subsection \<open>\<open>resize_spectrogram\<close> and \<open>generate_mel_spectrogram\<close>\<close>

text \<open>
  \<open>resize_spectrogram\<close>: the array is two-dimensional by its type; the remaining checks
  are the source's, in its order. An exception of \<open>zoom\<close> is logged and raised again.
\<close>

definition resize_spectrogram :: "world \<Rightarrow> array2 \<Rightarrow> int \<times> int \<Rightarrow> py_exn + array2" where
  "resize_spectrogram w spectrogram tsize =
     (if array_size spectrogram = 0 then Inl (Raise ValueError ''spectrogram cannot be empty'')
      else
        let current_height = int (length spectrogram);
            current_width = int (ncols spectrogram)
        in if current_height \<le> 0 \<or> current_width \<le> 0
           then Inl (Raise ValueError ''Invalid spectrogram dimensions'')
           else
             let height_scale = (of_int (fst tsize) :: rat) / of_int current_height;
                 width_scale = (of_int (snd tsize) :: rat) / of_int current_width
             in if height_scale \<le> 0 \<or> width_scale \<le> 0
                then Inl (Raise ValueError ''Invalid scaling factors'')
                else (case zoom w spectrogram (height_scale, width_scale) of
                        Inl e \<Rightarrow> Inl e
                      | Inr resized_spectrogram \<Rightarrow>
                          Inr (map (slice_to (snd tsize))
                                 (slice_to (fst tsize) resized_spectrogram))))"

text \<open>
  The pre-emphasis filter inside its \<open>try\<close>: when it fails with an \<open>Exception\<close> a warning
  is logged and the unfiltered signal is kept.
\<close>

definition apply_preemphasis :: "world \<Rightarrow> rat list \<Rightarrow> py_exn + rat list" where
  "apply_preemphasis w y =
     (case preemphasis w y of
        Inr y1 \<Rightarrow> Inr y1
      | Inl e \<Rightarrow> if is_Exception e then Inr y else Inl e)"

definition generate_mel_spectrogram ::
  "world \<Rightarrow> AudioProcessor \<Rightarrow> string \<Rightarrow> (int \<times> int) option \<Rightarrow> py_exn + array2" where
  "generate_mel_spectrogram w p audio_path tsize_opt =
     (if audio_path = [] then Inl (Raise ValueError ''Invalid audio_path'')
      else if \<not> path_exists w audio_path
        then Inl (Raise FileNotFoundError (''Audio file not found: '' @ audio_path))
      else
        let tsize = (case tsize_opt of None \<Rightarrow> target_size p | Some t \<Rightarrow> t)
        in case librosa_load w audio_path (segment_duration p) of
             Inl e \<Rightarrow> Inl e
           | Inr (y_opt, sr_opt) \<Rightarrow>
               (case y_opt of
                  None \<Rightarrow> Inl (Raise ValueError (''Empty or invalid audio data in '' @ audio_path))
                | Some y0 \<Rightarrow>
                    if y0 = []
                    then Inl (Raise ValueError (''Empty or invalid audio data in '' @ audio_path))
                    else (case sr_opt of
                       None \<Rightarrow> Inl (Raise ValueError (''Invalid sample rate for '' @ audio_path))
                     | Some sr \<Rightarrow>
                         if sr \<le> 0
                         then Inl (Raise ValueError (''Invalid sample rate for '' @ audio_path))
                         else (case apply_preemphasis w y0 of
                            Inl e \<Rightarrow> Inl e
                          | Inr y \<Rightarrow>
                              (case melspectrogram w y sr
                                      \<lparr>n_mels = 128, n_fft = 2048, hop_length = 512, fmin = 50,
                                       fmax = sr div 2, mel_window = ''hann''\<rparr> of
                                 Inl e \<Rightarrow> Inl e
                               | Inr None \<Rightarrow>
                                   Inl (Raise ValueError
                                          (''Invalid spectrogram generated for '' @ audio_path))
                               | Inr (Some mel_spectrogram) \<Rightarrow>
                                   if array_size mel_spectrogram = 0
                                   then Inl (Raise ValueError
                                          (''Invalid spectrogram generated for '' @ audio_path))
                                   else (case power_to_db w mel_spectrogram 80 of
                                           Inl e \<Rightarrow> Inl e
                                         | Inr mel_spectrogram_db \<Rightarrow>
                                             resize_spectrogram w mel_spectrogram_db tsize))))))"

text \<open>
  \<open>save_spectrogram_as_image\<close>: \<open>None\<close> is a normal return, \<open>Some e\<close> the exception that
  leaves the function.
\<close>

definition save_spectrogram_as_image :: "world \<Rightarrow> array2 \<Rightarrow> string \<Rightarrow> py_exn option" where
  "save_spectrogram_as_image w spectrogram output_path =
     (if array_size spectrogram = 0
      then Some (Raise ValueError ''spectrogram must be a non-empty numpy array'')
      else if output_path = [] then Some (Raise ValueError ''Invalid output_path'')
      else
        let output_dir = dirname output_path
        in case (if output_dir \<noteq> [] \<and> \<not> path_exists w output_dir
                 then makedirs w output_dir else None) of
             Some e \<Rightarrow> Some e
           | None \<Rightarrow>
               if output_dir \<noteq> [] \<and> \<not> path_writable w output_dir
               then Some (Raise PermissionError (''Cannot write to directory: '' @ output_dir))
               else savefig w spectrogram output_path)"

subsection \<open>\<open>segment_audio_file\<close>\<close>

text \<open>
  The body of the loop for one window. \<open>Inr (Some path)\<close>: the spectrogram image was
  written and its path is appended; \<open>Inr None\<close>: a step failed with an \<open>Exception\<close>, which
  is logged, and the loop continues; \<open>Inl e\<close>: the exception leaves the loop (only a
  \<open>KeyboardInterrupt\<close> does, the three inner handlers catching every \<open>Exception\<close>).
\<close>

definition process_window :: "world \<Rightarrow> AudioProcessor \<Rightarrow> string \<Rightarrow> window \<Rightarrow> py_exn + string option"
  where
  "process_window w p tmp win =
     (let num = str_nat (nat (win_index win + 1));
          segment_path = path_join tmp (''segment_'' @ num @ ''.wav'')
      in case export_wav w segment_path (padded_len win) of
           Some e \<Rightarrow> if is_Exception e then Inr None else Inl e
         | None \<Rightarrow>
             (case generate_mel_spectrogram w p segment_path None of
                Inl e \<Rightarrow> if is_Exception e then Inr None else Inl e
              | Inr spectrogram \<Rightarrow>
                  let spectrogram_path = path_join tmp (''spectrogram_'' @ num @ ''.png'')
                  in case save_spectrogram_as_image w spectrogram spectrogram_path of
                       Some e \<Rightarrow> if is_Exception e then Inr None else Inl e
                     | None \<Rightarrow> Inr (Some spectrogram_path)))"

fun process_windows ::
  "world \<Rightarrow> AudioProcessor \<Rightarrow> string \<Rightarrow> window list \<Rightarrow> string list \<Rightarrow> py_exn + string list"
  where
  "process_windows w p tmp [] spectrogram_paths = Inr spectrogram_paths"
| "process_windows w p tmp (win # wins) spectrogram_paths =
     (case process_window w p tmp win of
        Inl e \<Rightarrow> Inl e
      | Inr None \<Rightarrow> process_windows w p tmp wins spectrogram_paths
      | Inr (Some path) \<Rightarrow> process_windows w p tmp wins (spectrogram_paths @ [path]))"

definition segment_audio_file :: "world \<Rightarrow> AudioProcessor \<Rightarrow> string \<Rightarrow> py_exn + string list" where
  "segment_audio_file w p input_file =
     (if input_file = [] then Inl (Raise ValueError ''Invalid input_file'')
      else if \<not> path_exists w input_file
        then Inl (Raise FileNotFoundError (''Input file not found: '' @ input_file))
      else if \<not> path_readable w input_file
        then Inl (Raise PermissionError (''Cannot read input file: '' @ input_file))
      else case temp_dir p of
        None \<Rightarrow> Inl (Raise RuntimeError
                 ''temp_dir not initialized. Use AudioProcessor as context manager.'')
      | Some tmp \<Rightarrow>
          (case from_file w input_file of
             Inl e \<Rightarrow> Inl e
           | Inr duration_ms \<Rightarrow>
               if duration_ms = 0
               then Inl (Raise ValueError (''Audio file is empty: '' @ input_file))
               else (case segment_windows p duration_ms of
                       Inl e \<Rightarrow> Inl e
                     | Inr wins \<Rightarrow>
                         (case process_windows w p tmp wins [] of
                            Inl e \<Rightarrow> Inl e
                          | Inr spectrogram_paths \<Rightarrow>
                              if spectrogram_paths = []
                              then Inl (Raise RuntimeError
                                     ''No spectrograms were successfully generated'')
                              else Inr spectrogram_paths))))"

section \<open>CNNModelPredictor\<close>

text \<open>
  A Python \<open>dict\<close> is an association list in insertion order: an assignment to a key that
  is present replaces its value in place, one to a new key appends (\<open>AList.update\<close>), and
  \<open>map_of\<close> is the lookup. \<open>max(d, key=d.get)\<close> is the first key, in that order, whose
  value is maximal; on an empty dict it raises.
\<close>

fun max_key :: "('k \<times> 'v::linorder) list \<Rightarrow> 'k \<times> 'v \<Rightarrow> 'k \<times> 'v" where
  "max_key [] best = best"
| "max_key (kv # rest) best = max_key rest (if snd best < snd kv then kv else best)"

definition dict_max :: "('k \<times> 'v::linorder) list \<Rightarrow> 'k option" where
  "dict_max d = (case d of [] \<Rightarrow> None | kv # rest \<Rightarrow> Some (fst (max_key rest kv)))"

definition is_space :: "char \<Rightarrow> bool" where
  "is_space c = (c \<in> set [CHR '' '', CHR 0x09, CHR 0x0A, CHR 0x0B, CHR 0x0C, CHR 0x0D])"

definition strip :: "string \<Rightarrow> string" where
  "strip s = rev (dropWhile is_space (rev (dropWhile is_space s)))"

definition endswith :: "string \<Rightarrow> string \<Rightarrow> bool" where
  "endswith s suffix = (length suffix \<le> length s \<and> drop (length s - length suffix) s = suffix)"

record CNNModelPredictor =
  model_path :: string
  class_names :: "string list"
  model_loaded :: bool
  interpreter_loaded :: bool
  use_tflite :: bool

definition default_class_names :: "string list" where
  "default_class_names = [''blocks'', ''prolongations'', ''repetitions'']"

definition load_class_names :: "world \<Rightarrow> string \<Rightarrow> py_exn + string list" where
  "load_class_names w mpath =
     (let class_names_path = path_join (dirname mpath) ''class_names.txt''
      in if path_exists w class_names_path then
           (case read_lines w class_names_path of
              Inr lines \<Rightarrow> Inr (map strip (filter (\<lambda>line. strip line \<noteq> []) lines))
            | Inl e \<Rightarrow> if is_Exception e then Inr default_class_names else Inl e)
         else Inr default_class_names)"

definition CNNModelPredictor_init ::
  "world \<Rightarrow> string \<Rightarrow> string list option \<Rightarrow> py_exn + CNNModelPredictor" where
  "CNNModelPredictor_init w mpath names_opt =
     (case (case names_opt of
              Some (n # ns) \<Rightarrow> Inr (n # ns)
            | _ \<Rightarrow> load_class_names w mpath) of
        Inl e \<Rightarrow> Inl e
      | Inr names \<Rightarrow>
          Inr \<lparr>model_path = mpath, class_names = names, model_loaded = False,
               interpreter_loaded = False, use_tflite = False\<rparr>)"

definition load_model :: "world \<Rightarrow> CNNModelPredictor \<Rightarrow> py_exn + CNNModelPredictor" where
  "load_model w pr =
     (if model_path pr = [] then Inl (Raise ValueError ''Invalid model_path'')
      else if \<not> path_exists w (model_path pr)
        then Inl (Raise FileNotFoundError (''Model file not found: '' @ model_path pr))
      else if \<not> path_readable w (model_path pr)
        then Inl (Raise PermissionError (''Cannot read model file: '' @ model_path pr))
      else if endswith (model_path pr) ''.tflite'' \<and> tflite_available w then
        (case tflite_load w (model_path pr) of
           Some e \<Rightarrow> Inl e
         | None \<Rightarrow> Inr (pr\<lparr>interpreter_loaded := True, use_tflite := True\<rparr>))
      else if endswith (model_path pr) ''.keras'' then
        (case keras_load w (model_path pr) of
           Some e \<Rightarrow> Inl e
         | None \<Rightarrow> Inr (pr\<lparr>model_loaded := True, use_tflite := False\<rparr>))
      else if endswith (model_path pr) ''.h5'' then
        (case keras_load w (model_path pr) of
           Some e \<Rightarrow> Inl e
         | None \<Rightarrow> Inr (pr\<lparr>model_loaded := True, use_tflite := False\<rparr>))
      else
        (case keras_load w (model_path pr) of
           Some e \<Rightarrow> Inl e
         | None \<Rightarrow> Inr (pr\<lparr>model_loaded := True, use_tflite := False\<rparr>)))"

text \<open>
  What \<open>predict_image\<close> writes to the log: the warning about a probability vector whose
  length is not the number of class names (with the two lengths), and the errors logged
  before an exception is raised again.
\<close>

datatype log_event = PredictionLengthMismatch nat nat | LoggedError string

text \<open>
  The loop that turns the first row of the model's output into the result dict: class
  \<open>i\<close> gets entry \<open>i\<close> of the row, or \<open>0.0\<close> when the row has no such entry.
\<close>

definition predictions_to_dict :: "string list \<Rightarrow> rat list \<Rightarrow> (string \<times> rat) list" where
  "predictions_to_dict names row =
     fold (\<lambda>(i, class_name) result.
             AList.update class_name (if i < length row then row ! i else 0) result)
          (enumerate 0 names) []"

definition predict_image ::
  "world \<Rightarrow> CNNModelPredictor \<Rightarrow> string \<Rightarrow> log_event list \<times> (py_exn + (string \<times> rat) list)"
  where
  "predict_image w pr ipath =
     (if use_tflite pr \<and> \<not> interpreter_loaded pr
        then ([], Inl (Raise RuntimeError ''TFLite model not loaded. Call load_model() first.''))
      else if \<not> use_tflite pr \<and> \<not> model_loaded pr
        then ([], Inl (Raise RuntimeError ''Keras model not loaded. Call load_model() first.''))
      else if ipath = [] then ([], Inl (Raise ValueError ''Invalid image_path''))
      else if \<not> path_exists w ipath
        then ([], Inl (Raise FileNotFoundError (''Image file not found: '' @ ipath)))
      else if \<not> path_readable w ipath
        then ([], Inl (Raise PermissionError (''Cannot read image file: '' @ ipath)))
      else case load_img w ipath of
        Inl e \<Rightarrow> (if is_Exception e
                  then [LoggedError (''Failed to load/preprocess image '' @ ipath)] else [],
                  Inl e)
      | Inr img_array \<Rightarrow>
          if concat (concat img_array) = []
          then ([], Inl (Raise ValueError (''Invalid preprocessed image from '' @ ipath)))
          else (case run_model w (use_tflite pr) img_array of
             Inl e \<Rightarrow> (if is_Exception e
                       then [LoggedError (''Prediction failed for '' @ ipath)] else [],
                       Inl e)
           | Inr predictions \<Rightarrow>
               (case predictions of
                  None \<Rightarrow>
                    ([], Inl (Raise ValueError (''Invalid predictions from model for '' @ ipath)))
                | Some [] \<Rightarrow>
                    ([], Inl (Raise ValueError (''Invalid predictions from model for '' @ ipath)))
                | Some (row # _) \<Rightarrow>
                    if length row = 0
                    then ([], Inl (Raise ValueError
                                     (''Invalid predictions from model for '' @ ipath)))
                    else (if length row \<noteq> length (class_names pr)
                          then [PredictionLengthMismatch (length row) (length (class_names pr))]
                          else [],
                          Inr (predictions_to_dict (class_names pr) row)))))"

text \<open>
  One entry of the list \<open>predict_spectrograms\<close> returns. The dict has the keys
  \<open>predictions\<close>, \<open>predicted_class\<close> and \<open>confidence\<close> on success and the key \<open>error\<close>
  on failure; a key that is absent is \<open>None\<close>.
\<close>

record segment_result =
  segment_index :: int
  image_path :: string
  predictions :: "(string \<times> rat) list option"
  predicted_class :: "string option"
  confidence :: "rat option"
  error :: "string option"
  timestamp_start :: rat
  timestamp_end :: rat

definition error_result :: "nat \<Rightarrow> string \<Rightarrow> string \<Rightarrow> segment_result" where
  "error_result i path msg =
     \<lparr>segment_index = int i + 1, image_path = path, predictions = None,
      predicted_class = None, confidence = None, error = Some msg,
      timestamp_start = of_nat i * 5, timestamp_end = (of_nat i + 1) * 5\<rparr>"

text \<open>
  The body of the loop of \<open>predict_spectrograms\<close> for the path at position \<open>i\<close>
  (0-based). Its \<open>except Exception\<close> turns every \<open>Exception\<close> into an error entry; a
  \<open>KeyboardInterrupt\<close> leaves the loop.
\<close>

definition predict_one ::
  "world \<Rightarrow> CNNModelPredictor \<Rightarrow> nat \<Rightarrow> string \<Rightarrow> py_exn + segment_result" where
  "predict_one w pr i path =
     (case snd (predict_image w pr path) of
        Inl e \<Rightarrow> if is_Exception e then Inr (error_result i path (str_exn e)) else Inl e
      | Inr preds \<Rightarrow>
          (case dict_max preds of
             None \<Rightarrow> Inr (error_result i path ''max() arg is an empty sequence'')
           | Some pclass \<Rightarrow>
               (case map_of preds pclass of
                  None \<Rightarrow> Inr (error_result i path pclass)
                | Some conf \<Rightarrow>
                    Inr \<lparr>segment_index = int i + 1, image_path = path,
                         predictions = Some preds, predicted_class = Some pclass,
                         confidence = Some conf, error = None,
                         timestamp_start = of_nat i * 5,
                         timestamp_end = (of_nat i + 1) * 5\<rparr>)))"

fun predict_loop ::
  "world \<Rightarrow> CNNModelPredictor \<Rightarrow> (nat \<times> string) list \<Rightarrow> segment_result list
     \<Rightarrow> py_exn + segment_result list" where
  "predict_loop w pr [] results = Inr results"
| "predict_loop w pr ((i, path) # rest) results =
     (case predict_one w pr i path of
        Inl e \<Rightarrow> Inl e
      | Inr r \<Rightarrow> predict_loop w pr rest (results @ [r]))"

definition predict_spectrograms ::
  "world \<Rightarrow> CNNModelPredictor \<Rightarrow> string list \<Rightarrow> py_exn + segment_result list" where
  "predict_spectrograms w pr spectrogram_paths =
     predict_loop w pr (enumerate 0 spectrogram_paths) []"

section \<open>\<open>process_audio_file\<close>\<close>

text \<open>
  The \<open>summary\<close> dict of the report is either empty (\<open>None\<close>) or has all five keys. The
  report itself is the \<open>results\<close> dict.
\<close>

record summary_dict =
  total_segments :: int
  successful_predictions :: int
  class_distribution :: "(string \<times> int) list"
  average_confidence :: rat
  dominant_class :: "string option"

record report =
  input_file :: string
  report_model_path :: string
  output_dir :: string
  segments :: "segment_result list"
  summary :: "summary_dict option"
  errors :: "string list"

text \<open>
  The loop over the successful predictions: it counts the classes and adds up the
  confidences, reading both keys with \<open>get\<close> and a default.
\<close>

definition tally ::
  "segment_result list \<Rightarrow> (string \<times> int) list \<times> rat" where
  "tally preds =
     fold (\<lambda>pred (class_counts, total_confidence).
             let class_name = (case predicted_class pred of None \<Rightarrow> ''unknown'' | Some c \<Rightarrow> c);
                 conf = (case confidence pred of None \<Rightarrow> 0 | Some c \<Rightarrow> c)
             in (AList.update class_name
                   ((case map_of class_counts class_name of None \<Rightarrow> 0 | Some n \<Rightarrow> n) + 1)
                   class_counts,
                 total_confidence + conf))
          preds ([], 0)"

definition summarize :: "segment_result list \<Rightarrow> summary_dict" where
  "summarize preds =
     (let successful = filter (\<lambda>p. error p = None) preds
      in if successful \<noteq> [] then
           (let (class_counts, total_confidence) = tally successful
            in \<lparr>total_segments = int (length preds),
                successful_predictions = int (length successful),
                class_distribution = class_counts,
                average_confidence = total_confidence / of_nat (length successful),
                dominant_class = dict_max class_counts\<rparr>)
         else \<lparr>total_segments = int (length preds), successful_predictions = 0,
               class_distribution = [], average_confidence = 0, dominant_class = None\<rparr>)"

text \<open>
  The body of \<open>with AudioProcessor() as processor\<close>. \<open>Inr r\<close>: the function returns the
  report \<open>r\<close> from inside the block; \<open>Inl (e, r)\<close>: the exception \<open>e\<close> reaches the outer
  handlers with the report in state \<open>r\<close>. Each inner \<open>except Exception\<close> records the
  failure in \<open>errors\<close> and returns; the processor's \<open>__exit__\<close> removes the temporary
  directory and swallows its own failures, so it does not change the result.
\<close>

definition with_processor ::
  "world \<Rightarrow> report \<Rightarrow> string \<Rightarrow> string \<Rightarrow> (py_exn \<times> report) + report" where
  "with_processor w results ifile mpath =
     (case AudioProcessor_init 3 (128, 128) (1 / 2) 1 of
        Inl e \<Rightarrow> Inl (e, results)
      | Inr p0 \<Rightarrow>
     (case mkdtemp w of
        Inl e \<Rightarrow> Inl (e, results)
      | Inr tmp \<Rightarrow>
          let processor = p0\<lparr>temp_dir := Some tmp\<rparr>
          in case segment_audio_file w processor ifile of
               Inl e \<Rightarrow>
                 if is_Exception e
                 then Inr (results\<lparr>errors := errors results
                                      @ [''Segmentation error: '' @ str_exn e]\<rparr>)
                 else Inl (e, results)
             | Inr spectrogram_paths \<Rightarrow>
                 if spectrogram_paths = []
                 then Inr (results\<lparr>errors := errors results @ [''No spectrograms generated''],
                             summary := Some \<lparr>total_segments = 0, successful_predictions = 0,
                                              class_distribution = [], average_confidence = 0,
                                              dominant_class = None\<rparr>\<rparr>)
                 else (case (case CNNModelPredictor_init w mpath None of
                               Inl e \<Rightarrow> Inl e
                             | Inr pr \<Rightarrow> load_model w pr) of
                    Inl e \<Rightarrow>
                      if is_Exception e
                      then Inr (results\<lparr>errors := errors results
                                           @ [''Model loading error: '' @ str_exn e]\<rparr>)
                      else Inl (e, results)
                  | Inr predictor \<Rightarrow>
                      (case predict_spectrograms w predictor spectrogram_paths of
                         Inl e \<Rightarrow>
                           if is_Exception e
                           then Inr (results\<lparr>errors := errors results
                                                @ [''Prediction error: '' @ str_exn e]\<rparr>)
                           else Inl (e, results)
                       | Inr preds \<Rightarrow>
                           Inr (results\<lparr>segments := preds,
                                        summary := Some (summarize preds)\<rparr>)))))"

text \<open>
  \<open>process_audio_file\<close>: the argument checks and \<open>os.makedirs\<close> raise to the caller; the
  outer handlers raise a \<open>KeyboardInterrupt\<close> and a \<open>MemoryError\<close> again and turn any
  other exception into an entry of \<open>errors\<close>.
\<close>

definition process_audio_file ::
  "world \<Rightarrow> string \<Rightarrow> string \<Rightarrow> string option \<Rightarrow> py_exn + report" where
  "process_audio_file w ifile mpath output_dir_opt =
     (if ifile = [] then Inl (Raise ValueError ''Invalid input_file'')
      else if mpath = [] then Inl (Raise ValueError ''Invalid model_path'')
      else
        let odir = (case output_dir_opt of None \<Rightarrow> dirname ifile | Some d \<Rightarrow> d)
        in case (if odir \<noteq> [] then makedirs w odir else None) of
             Some e \<Rightarrow> Inl e
           | None \<Rightarrow>
               let results = \<lparr>input_file = ifile, report_model_path = mpath,
                              output_dir = odir, segments = [], summary = None, errors = []\<rparr>
               in case with_processor w results ifile mpath of
                    Inr r \<Rightarrow> Inr r
                  | Inl (e, r) \<Rightarrow>
                      if exn_kind_of e = KeyboardInterrupt then Inl e
                      else if exn_kind_of e = MemoryError then Inl e
                      else Inr (r\<lparr>errors := errors r @ [str_exn e]\<rparr>))"

section \<open>CNNAnalysisService\<close>

record event =
  event_type :: string
  event_confidence :: rat
  probability :: int
  seconds :: int
  t0 :: int
  t1 :: int
  source :: string
  model_version :: string

record processing_details =
  segmentsAnalyzed :: int
  disfluencySegments :: int
  segmentDuration :: string
  modelType :: string

record flutter_summary =
  segmentCount :: int
  totalSegments :: int
  successfulPredictions :: int
  averageConfidence :: rat
  dominantType :: "string option"
  classDistribution :: "(string \<times> int) list"
  hasEvents :: bool
  processingDetails :: processing_details

record processing_info =
  info_model_path :: "string option"
  info_input_file :: string
  processing_time :: string
  info_errors :: "string list"

record flutter_report =
  events :: "event list"
  report_summary :: flutter_summary
  report_info :: processing_info

text \<open>
  The loop of \<open>_format_results_for_flutter\<close> over the segments: an entry with the key
  \<open>error\<close> is skipped, and so is one whose class is \<open>'none'\<close> or whose confidence is below
  0.3; every other entry appends one event.
\<close>

definition segment_event :: "segment_result \<Rightarrow> event option" where
  "segment_event segment =
     (if error segment \<noteq> None then None
      else
        let pclass = (case predicted_class segment of None \<Rightarrow> ''none'' | Some c \<Rightarrow> c);
            conf = (case confidence segment of None \<Rightarrow> 0 | Some c \<Rightarrow> c)
        in if pclass = ''none'' \<or> conf < 3 / 10 then None
           else Some \<lparr>event_type = pclass, event_confidence = conf,
                      probability = py_int (round_double (conf * 100)),
                      seconds = py_int (timestamp_start segment),
                      t0 = py_int (timestamp_start segment * 1000),
                      t1 = py_int (timestamp_end segment * 1000),
                      source = ''cnn_model'', model_version = ''h5_v1''\<rparr>)"

definition format_events :: "segment_result list \<Rightarrow> event list" where
  "format_events segs = List.map_filter segment_event segs"

definition format_results_for_flutter :: "string option \<Rightarrow> report \<Rightarrow> flutter_report" where
  "format_results_for_flutter service_model_path results =
     (let evs = format_events (segments results);
          total = (case summary results of None \<Rightarrow> 0 | Some s \<Rightarrow> total_segments s);
          successful = (case summary results of None \<Rightarrow> 0 | Some s \<Rightarrow> successful_predictions s)
      in \<lparr>events = evs,
          report_summary =
            \<lparr>segmentCount = int (length evs),
             totalSegments = total,
             successfulPredictions = successful,
             averageConfidence =
               (case summary results of None \<Rightarrow> 0 | Some s \<Rightarrow> average_confidence s),
             dominantType =
               (case summary results of None \<Rightarrow> Some ''none'' | Some s \<Rightarrow> dominant_class s),
             classDistribution =
               (case summary results of None \<Rightarrow> [] | Some s \<Rightarrow> class_distribution s),
             hasEvents = (0 < length evs),
             processingDetails =
               \<lparr>segmentsAnalyzed = successful, disfluencySegments = int (length evs),
                segmentDuration = ''5.0 seconds'', modelType = ''H5 CNN''\<rparr>\<rparr>,
          report_info =
            \<lparr>info_model_path = service_model_path, info_input_file = input_file results,
             processing_time = ''unknown'', info_errors = errors results\<rparr>\<rparr>)"

text \<open>
  \<open>analyze_audio_file\<close>, the coarse mode of the service: the checks, \<open>process_audio_file\<close>
  (whose exceptions are logged and raised again) and the formatting, which raises nothing
  on a report of \<open>process_audio_file\<close>.
\<close>

record CNNAnalysisService =
  service_model_path :: "string option"
  service_temp_dir :: "string option"

definition analyze_audio_file ::
  "world \<Rightarrow> CNNAnalysisService \<Rightarrow> string \<Rightarrow> string option \<Rightarrow> py_exn + flutter_report" where
  "analyze_audio_file w svc audio_file_path output_dir_opt =
     (if audio_file_path = [] then Inl (Raise ValueError ''Invalid audio_file_path'')
      else if \<not> path_exists w audio_file_path
        then Inl (Raise FileNotFoundError (''Audio file not found: '' @ audio_file_path))
      else if \<not> path_readable w audio_file_path
        then Inl (Raise PermissionError (''Cannot read audio file: '' @ audio_file_path))
      else case service_model_path svc of
        None \<Rightarrow> Inl (Raise ValueError ''Model path not set. Cannot perform analysis.'')
      | Some mpath \<Rightarrow>
          if mpath = [] then Inl (Raise ValueError ''Model path not set. Cannot perform analysis.'')
          else if \<not> path_exists w mpath
            then Inl (Raise FileNotFoundError (''CNN model not found: '' @ mpath))
          else if \<not> path_readable w mpath
            then Inl (Raise PermissionError (''Cannot read model file: '' @ mpath))
          else
            let odir = (case output_dir_opt of None \<Rightarrow> service_temp_dir svc | Some d \<Rightarrow> Some d)
            in case process_audio_file w audio_file_path mpath odir of
                 Inl e \<Rightarrow> Inl e
               | Inr results \<Rightarrow> Inr (format_results_for_flutter (Some mpath) results))"

section \<open>Specification predicates and a reference world\<close>

text \<open>A call was ended by an interrupt, the one exception that no handler turns into data.\<close>

definition interrupted :: "py_exn + 'a \<Rightarrow> bool" where
  "interrupted r = (case r of Inl e \<Rightarrow> \<not> is_Exception e | Inr _ \<Rightarrow> False)"



text \<open>The invariant that \<open>AudioProcessor.__init__\<close> establishes.\<close>

definition valid_config :: "AudioProcessor \<Rightarrow> bool" where
  "valid_config p =
     (0 < segment_duration p \<and> 0 < fst (target_size p) \<and> 0 < snd (target_size p)
      \<and> 0 \<le> overlap_ratio p \<and> overlap_ratio p < 1
      \<and> 0 < min_segment_duration p \<and> min_segment_duration p \<le> segment_duration p)"

text \<open>
  The outcomes of the per-window padding, each with the condition on the natural length
  under which it applies: padded to the minimum duration; padded to the segment duration;
  left unpadded because the natural length lies in
  \<open>[min_segment_duration, 0.8 * segment_duration)\<close>; left unpadded because the window
  already has the full segment duration.
\<close>

definition padded_to_min :: "AudioProcessor \<Rightarrow> window \<Rightarrow> bool" where
  "padded_to_min p win =
     (natural_len win < min_segment_duration_ms p
      \<and> padded_len win = min_segment_duration_ms p)"

definition padded_to_segment :: "AudioProcessor \<Rightarrow> window \<Rightarrow> bool" where
  "padded_to_segment p win =
     (min_segment_duration_ms p \<le> natural_len win
      \<and> natural_len win < segment_duration_ms p
      \<and> (of_int (segment_duration_ms p) :: rat) * (8 / 10) \<le> of_int (natural_len win)
      \<and> padded_len win = segment_duration_ms p)"

definition left_unpadded_short :: "AudioProcessor \<Rightarrow> window \<Rightarrow> bool" where
  "left_unpadded_short p win =
     (min_segment_duration_ms p \<le> natural_len win
      \<and> (of_int (natural_len win) :: rat) < of_int (segment_duration_ms p) * (8 / 10)
      \<and> padded_len win = natural_len win)"

definition left_unpadded_full :: "AudioProcessor \<Rightarrow> window \<Rightarrow> bool" where
  "left_unpadded_full p win =
     (natural_len win = segment_duration_ms p \<and> padded_len win = natural_len win)"

text \<open>
  The padding rule in the specification's words: exactly one of its three outcomes holds
  for the window.
\<close>

definition spec_padding_outcomes :: "AudioProcessor \<Rightarrow> window \<Rightarrow> bool" where
  "spec_padding_outcomes p win =
     (length (filter id [padded_to_min p win, padded_to_segment p win,
                         left_unpadded_short p win]) = 1)"

text \<open>The paths that the loop body gives to window \<open>win\<close> in the directory \<open>tmp\<close>.\<close>

definition segment_path_of :: "string \<Rightarrow> window \<Rightarrow> string" where
  "segment_path_of tmp win =
     path_join tmp (''segment_'' @ str_nat (nat (win_index win + 1)) @ ''.wav'')"

definition spectrogram_path_of :: "string \<Rightarrow> window \<Rightarrow> string" where
  "spectrogram_path_of tmp win =
     path_join tmp (''spectrogram_'' @ str_nat (nat (win_index win + 1)) @ ''.png'')"

text \<open>
  A reference \<open>zoom\<close> in exact arithmetic, after the documentation of
  \<open>scipy.ndimage.zoom\<close> with \<open>order=1\<close>: the output has \<open>round(n * factor)\<close> entries along
  an axis of \<open>n\<close> entries, and entry \<open>j\<close> of \<open>m\<close> is the linear interpolation of the input
  at the coordinate \<open>j * (n - 1) / (m - 1)\<close>.
\<close>

definition lerp_axis :: "(rat \<Rightarrow> 'a \<Rightarrow> 'a \<Rightarrow> 'a) \<Rightarrow> 'a list \<Rightarrow> nat \<Rightarrow> 'a list" where
  "lerp_axis mix xs m =
     map (\<lambda>j. let c = (if m \<le> 1 then 0
                        else of_nat j * of_nat (length xs - 1) / of_nat (m - 1) :: rat);
                   k = nat \<lfloor>c\<rfloor>
               in mix (c - of_int \<lfloor>c\<rfloor>) (xs ! k) (xs ! min (k + 1) (length xs - 1)))
         [0 ..< m]"

definition mix_rat :: "rat \<Rightarrow> rat \<Rightarrow> rat \<Rightarrow> rat" where
  "mix_rat f a b = (1 - f) * a + f * b"

definition mix_row :: "rat \<Rightarrow> rat list \<Rightarrow> rat list \<Rightarrow> rat list" where
  "mix_row f r s = map2 (mix_rat f) r s"

definition zoom_order1 :: "array2 \<Rightarrow> rat \<times> rat \<Rightarrow> py_exn + array2" where
  "zoom_order1 a z =
     (let h = nat (py_round (of_nat (length a) * fst z));
          w = nat (py_round (of_nat (ncols a) * snd z))
      in Inr (map (\<lambda>r. lerp_axis mix_rat r w) (lerp_axis mix_row a h)))"

text \<open>
  What the services rely on from \<open>zoom\<close>: on a non-empty rectangular array and positive
  factors it returns a rectangular array of \<open>round(n * factor)\<close> entries along each axis;
  with both factors 1 it returns the array itself.
\<close>

definition zoom_shape_contract :: "world \<Rightarrow> bool" where
  "zoom_shape_contract w =
     (\<forall>a zh zw. rect a \<and> a \<noteq> [] \<and> ncols a \<noteq> 0 \<and> 0 < zh \<and> 0 < zw \<longrightarrow>
        (\<exists>out. zoom w a (zh, zw) = Inr out \<and> rect out
           \<and> int (length out) = py_round (of_nat (length a) * zh)
           \<and> (out \<noteq> [] \<longrightarrow> int (ncols out) = py_round (of_nat (ncols a) * zw))))"

definition zoom_unit_contract :: "world \<Rightarrow> bool" where
  "zoom_unit_contract w = (\<forall>a. rect a \<and> a \<noteq> [] \<and> ncols a \<noteq> 0 \<longrightarrow> zoom w a (1, 1) = Inr a)"

text \<open>
  A reference world in which every external call succeeds: the clip has the given
  duration, the class names file lists the three default classes, every window has the
  same small mel spectrogram, the image at path \<open>p\<close> is \<open>images p\<close>, and the model
  answers for the image \<open>img\<close> with the probability vector \<open>rows img\<close>.
\<close>

definition blank_image :: "string \<Rightarrow> image" where
  "blank_image p = [[[0]]]"

definition test_world ::
  "int \<Rightarrow> (string \<Rightarrow> image) \<Rightarrow> (image \<Rightarrow> rat list) \<Rightarrow> world" where
  "test_world duration images rows =
     \<lparr>path_exists = (\<lambda>_. True), path_readable = (\<lambda>_. True), path_writable = (\<lambda>_. True),
      makedirs = (\<lambda>_. None), mkdtemp = Inr ''/tmp/t'',
      from_file = (\<lambda>_. Inr duration), export_wav = (\<lambda>_ _. None),
      librosa_load = (\<lambda>_ _. Inr (Some [0, 1, 0, -1], Some 22050)),
      preemphasis = (\<lambda>y. Inr y),
      melspectrogram = (\<lambda>_ _ _. Inr (Some [[1, 2], [3, 4]])),
      power_to_db = (\<lambda>a _. Inr a),
      zoom = zoom_order1,
      savefig = (\<lambda>_ _. None),
      read_lines = (\<lambda>_. Inr [''blocks'', ''prolongations'', ''repetitions'']),
      tflite_available = False,
      tflite_load = (\<lambda>_. None), keras_load = (\<lambda>_. None),
      load_img = (\<lambda>p. Inr (images p)),
      run_model = (\<lambda>_ img. Inr (Some [rows img]))\<rparr>"

text \<open>
  A processor with a two by two target size in an entered context, and the single window
  it cuts from a clip of two seconds.
\<close>

definition small_processor :: AudioProcessor where
  "small_processor =
     \<lparr>segment_duration = 3, target_size = (2, 2), overlap_ratio = 1 / 2,
      min_segment_duration = 1, temp_dir = Some ''/tmp/t''\<rparr>"

definition short_window :: window where
  "short_window =
     \<lparr>win_index = 0, start_ms = 0, end_ms = 2000, natural_len = 2000, padded_len = 2000\<rparr>"

text \<open>
  The predictor that \<open>CNNModelPredictor(model_path)\<close> and \<open>load_model\<close> give in the
  reference world for a Keras model file.
\<close>

definition loaded_predictor :: CNNModelPredictor where
  "loaded_predictor =
     \<lparr>model_path = ''m.h5'', class_names = default_class_names, model_loaded = True,
      interpreter_loaded = False, use_tflite = False\<rparr>"

text \<open>
  Reference worlds for a two second clip: one whose model returns an empty probability
  vector for every image, and one whose model returns two probabilities.
\<close>

definition empty_row_world :: world where
  "empty_row_world = test_world 2000 blank_image (\<lambda>_. [])"

definition two_class_world :: world where
  "two_class_world = test_world 2000 blank_image (\<lambda>_. [9 / 10, 1 / 20])"

text \<open>
  The partial failure scenario: a seven second clip, cut into three windows; the model
  answers the first image with a low confidence, returns an empty row for the second,
  and answers the third with a high confidence.
\<close>

definition scenario_image :: "string \<Rightarrow> image" where
  "scenario_image p =
     (if p = ''/tmp/t/spectrogram_1.png'' then [[[1]]]
      else if p = ''/tmp/t/spectrogram_2.png'' then [[[2]]]
      else [[[3]]])"

definition scenario_rows :: "image \<Rightarrow> rat list" where
  "scenario_rows img =
     (if img = [[[1]]] then [1 / 5, 1 / 10, 1 / 10]
      else if img = [[[2]]] then []
      else [9 / 10, 1 / 20, 1 / 20])"

definition scenario_world :: world where
  "scenario_world = test_world 7000 scenario_image scenario_rows"

text \<open>
  The processor of the scenario (the default one, with its temporary directory), its
  windows, the spectrogram paths, the entries of \<open>predict_spectrograms\<close> and the report
  of \<open>process_audio_file\<close>, as the lemmas of the scenario below compute them.
\<close>

definition scenario_processor :: AudioProcessor where
  "scenario_processor = default_processor\<lparr>temp_dir := Some ''/tmp/t''\<rparr>"

definition scenario_windows :: "window list" where
  "scenario_windows =
     [\<lparr>win_index = 0, start_ms = 0, end_ms = 3000, natural_len = 3000, padded_len = 3000\<rparr>,
      \<lparr>win_index = 1, start_ms = 1500, end_ms = 4500, natural_len = 3000, padded_len = 3000\<rparr>,
      \<lparr>win_index = 2, start_ms = 3000, end_ms = 6000, natural_len = 3000, padded_len = 3000\<rparr>]"

definition scenario_paths :: "string list" where
  "scenario_paths =
     [''/tmp/t/spectrogram_1.png'', ''/tmp/t/spectrogram_2.png'', ''/tmp/t/spectrogram_3.png'']"

definition scenario_segments :: "segment_result list" where
  "scenario_segments =
     [\<lparr>segment_index = 1, image_path = ''/tmp/t/spectrogram_1.png'',
       predictions = Some [(''blocks'', 1 / 5), (''prolongations'', 1 / 10),
                           (''repetitions'', 1 / 10)],
       predicted_class = Some ''blocks'', confidence = Some (1 / 5), error = None,
       timestamp_start = 0, timestamp_end = 5\<rparr>,
      \<lparr>segment_index = 2, image_path = ''/tmp/t/spectrogram_2.png'',
       predictions = None, predicted_class = None, confidence = None,
       error = Some ''Invalid predictions from model for /tmp/t/spectrogram_2.png'',
       timestamp_start = 5, timestamp_end = 10\<rparr>,
      \<lparr>segment_index = 3, image_path = ''/tmp/t/spectrogram_3.png'',
       predictions = Some [(''blocks'', 9 / 10), (''prolongations'', 1 / 20),
                           (''repetitions'', 1 / 20)],
       predicted_class = Some ''blocks'', confidence = Some (9 / 10), error = None,
       timestamp_start = 10, timestamp_end = 15\<rparr>]"

definition scenario_summary :: summary_dict where
  "scenario_summary =
     \<lparr>total_segments = 3, successful_predictions = 2,
      class_distribution = [(''blocks'', 2)], average_confidence = 11 / 20,
      dominant_class = Some ''blocks''\<rparr>"

definition scenario_report :: report where
  "scenario_report =
     \<lparr>input_file = ''a.wav'', report_model_path = ''m.h5'', output_dir = [],
      segments = scenario_segments, summary = Some scenario_summary, errors = []\<rparr>"

definition scenario_service :: CNNAnalysisService where
  "scenario_service = \<lparr>service_model_path = Some ''m.h5'', service_temp_dir = None\<rparr>"

text \<open>
  The arithmetic mean of a list, 0 for the empty list, and the confidences of the
  successfully classified windows (the entries without the key \<open>error\<close>), each read as
  the summary loop reads it.
\<close>

definition mean :: "rat list \<Rightarrow> rat" where
  "mean xs = (if xs = [] then 0 else sum_list xs / of_nat (length xs))"

definition successful_confidences :: "segment_result list \<Rightarrow> rat list" where
  "successful_confidences segs =
     map (\<lambda>p. case confidence p of None \<Rightarrow> 0 | Some c \<Rightarrow> c)
         (filter (\<lambda>p. error p = None) segs)"

text \<open>
  The report of the coarse mode in the scenario, and a world in which the clip cannot be
  decoded, with the report of \<open>process_audio_file\<close> there.
\<close>

definition scenario_flutter_report :: flutter_report where
  "scenario_flutter_report =
     \<lparr>events =
        [\<lparr>event_type = ''blocks'', event_confidence = 9 / 10, probability = 90,
          seconds = 10, t0 = 10000, t1 = 15000, source = ''cnn_model'',
          model_version = ''h5_v1''\<rparr>],
      report_summary =
        \<lparr>segmentCount = 1, totalSegments = 3, successfulPredictions = 2,
         averageConfidence = 11 / 20, dominantType = Some ''blocks'',
         classDistribution = [(''blocks'', 2)], hasEvents = True,
         processingDetails =
           \<lparr>segmentsAnalyzed = 2, disfluencySegments = 1,
            segmentDuration = ''5.0 seconds'', modelType = ''H5 CNN''\<rparr>\<rparr>,
      report_info =
        \<lparr>info_model_path = Some ''m.h5'', info_input_file = ''a.wav'',
         processing_time = ''unknown'', info_errors = []\<rparr>\<rparr>"

definition decode_error_world :: world where
  "decode_error_world =
     scenario_world\<lparr>from_file := (\<lambda>_. Inl (Raise OtherException ''could not decode''))\<rparr>"

definition decode_error_report :: report where
  "decode_error_report =
     \<lparr>input_file = ''a.wav'', report_model_path = ''m.h5'', output_dir = [],
      segments = [], summary = None,
      errors = [''Segmentation error: could not decode'']\<rparr>"

text \<open>
  The processor \<open>AudioProcessor(segment_duration=3.0, overlap_ratio=0.9)\<close>: the double
  \<open>0.9\<close> lies above nine tenths, so the step is \<open>int(3000 * (1 - 0.9)) = 299\<close>.
\<close>

definition overlap_09_processor :: AudioProcessor where
  "overlap_09_processor = default_processor\<lparr>overlap_ratio := py_float (9 / 10)\<rparr>"

section \<open>Properties\<close>

subsection \<open>Rounding to a double\<close>

lemma py_round_of_int: "py_round (of_int n) = n"
  by (simp add: py_round_def)

lemma py_round_nonneg: "0 \<le> x \<Longrightarrow> 0 \<le> py_round x"
  by (auto simp: py_round_def Let_def)

lemma py_round_mono: "x \<le> y \<Longrightarrow> py_round x \<le> py_round y"
proof -
  assume xy: "x \<le> y"
  have fl: "\<lfloor>x\<rfloor> \<le> \<lfloor>y\<rfloor>" using xy by (rule floor_mono)
  have bx: "py_round x \<le> \<lfloor>x\<rfloor> + 1" "\<lfloor>x\<rfloor> \<le> py_round x"
    by (auto simp: py_round_def Let_def)
  have by': "py_round y \<le> \<lfloor>y\<rfloor> + 1" "\<lfloor>y\<rfloor> \<le> py_round y"
    by (auto simp: py_round_def Let_def)
  show ?thesis
  proof (cases "\<lfloor>x\<rfloor> = \<lfloor>y\<rfloor>")
    case True
    then have "x - of_int \<lfloor>x\<rfloor> \<le> y - of_int \<lfloor>y\<rfloor>" using xy by simp
    then show ?thesis using True by (auto simp: py_round_def Let_def)
  next
    case False
    then have "\<lfloor>x\<rfloor> + 1 \<le> \<lfloor>y\<rfloor>" using fl by simp
    then show ?thesis using bx(1) by'(2) by linarith
  qed
qed

lemma powi2_pos: "(0::rat) < 2 powi e"
  by simp

lemma powi2_less_iff: "((2::rat) powi a < 2 powi b) = (a < b)"
  by (meson linorder_not_less not_less_iff_gr_or_eq one_less_numeral_iff
      power_int_strict_increasing power_int_increasing semiring_norm(76) less_imp_le)

lemma powi2_add: "(2::rat) powi (a + b) = 2 powi a * 2 powi b"
  by (simp add: power_int_add)

lemma of_int_bitlen_bounds:
  assumes "0 < p"
  shows "(2::rat) powi (bitlen p - 1) \<le> of_int p" "(of_int p :: rat) < 2 powi bitlen p"
proof -
  have b: "1 \<le> bitlen p" using assms by (simp add: bitlen_alt_def)
  have "2 ^ nat (bitlen p - 1) \<le> p" "p < 2 ^ nat (bitlen p)"
    using bitlen_bounds [OF assms] by simp_all
  then have "(of_int (2 ^ nat (bitlen p - 1)) :: rat) \<le> of_int p"
    "(of_int p :: rat) < of_int (2 ^ nat (bitlen p))"
    by (simp_all only: of_int_le_iff of_int_less_iff)
  then show "(2::rat) powi (bitlen p - 1) \<le> of_int p" "(of_int p :: rat) < 2 powi bitlen p"
    using b by (simp_all add: power_int_def)
qed

lemma floor_log2_bounds:
  assumes "0 < x"
  shows "2 powi floor_log2 x \<le> x" and "x < 2 powi (floor_log2 x + 1)"
proof -
  obtain p q where pq: "quotient_of x = (p, q)" by (cases "quotient_of x")
  have q: "0 < q" using pq by (rule quotient_of_denom_pos)
  have x: "x = of_int p / of_int q" using pq by (rule quotient_of_div)
  have p: "0 < p" using assms q x by (simp add: zero_less_divide_iff)
  let ?e = "bitlen p - bitlen q"
  note bp = of_int_bitlen_bounds [OF p] and bq = of_int_bitlen_bounds [OF q]
  have qpos: "(0::rat) < of_int q" using q by simp
  have up: "x < 2 powi (?e + 1)"
  proof -
    have "x < 2 powi bitlen p / of_int q"
      unfolding x using bp(2) qpos by (simp add: divide_strict_right_mono)
    also have "\<dots> \<le> 2 powi bitlen p / 2 powi (bitlen q - 1)"
      using bq(1) qpos by (intro divide_left_mono) (simp_all add: zero_less_mult_iff)
    also have "\<dots> = 2 powi (bitlen p - (bitlen q - 1))"
      by (rule power_int_diff [symmetric]) simp
    also have "bitlen p - (bitlen q - 1) = ?e + 1" by simp
    finally show ?thesis .
  qed
  have lo: "2 powi (?e - 1) < x"
  proof -
    have "?e - 1 = (bitlen p - 1) - bitlen q" by simp
    then have "2 powi (?e - 1) = (2::rat) powi ((bitlen p - 1) - bitlen q)"
      by (rule arg_cong)
    also have "\<dots> = 2 powi (bitlen p - 1) / (2 powi bitlen q :: rat)"
      by (rule power_int_diff) simp
    also have "\<dots> \<le> of_int p / 2 powi bitlen q"
      using bp(1) by (simp add: divide_right_mono)
    also have "\<dots> < of_int p / of_int q"
      using bq(2) p qpos by (intro divide_strict_left_mono) simp_all
    finally show ?thesis unfolding x .
  qed
  have fl: "floor_log2 x = (if 2 powi ?e \<le> x then ?e else ?e - 1)"
    by (simp add: floor_log2_def pq Let_def)
  show "2 powi floor_log2 x \<le> x" using lo by (simp add: fl)
  show "x < 2 powi (floor_log2 x + 1)" using up by (simp add: fl not_le)
qed


lemma round_double_pos_bounds:
  assumes "0 < x"
  shows "2 powi floor_log2 x \<le> round_double x"
    and "round_double x \<le> 2 powi (floor_log2 x + 1)"
proof -
  let ?e = "floor_log2 x"
  let ?q = "(2::rat) powi (?e - 52)"
  have q: "0 < ?q" by simp
  have rd: "round_double x = of_int (py_round (x / ?q)) * ?q"
    using assms by (simp add: round_double_def Let_def)
  have p52: "(2::rat) powi ?e = of_int (2 ^ 52) * ?q"
    by (simp add: power_int_diff)
  have p53: "(2::rat) powi (?e + 1) = of_int (2 ^ 53) * ?q"
    by (simp add: power_int_diff power_int_add)
  have "of_int (2 ^ 52) \<le> x / ?q"
    using floor_log2_bounds(1) [OF assms] q unfolding p52 by (simp add: pos_le_divide_eq)
  then have "py_round (of_int (2 ^ 52)) \<le> py_round (x / ?q)" by (rule py_round_mono)
  then have lo: "2 ^ 52 \<le> py_round (x / ?q)" by (simp only: py_round_of_int)
  have "x / ?q \<le> of_int (2 ^ 53)"
    using floor_log2_bounds(2) [OF assms] q unfolding p53 by (simp add: pos_divide_le_eq)
  then have "py_round (x / ?q) \<le> py_round (of_int (2 ^ 53))" by (rule py_round_mono)
  then have hi: "py_round (x / ?q) \<le> 2 ^ 53" by (simp only: py_round_of_int)
  have "(of_int (2 ^ 52) :: rat) \<le> of_int (py_round (x / ?q))"
    using lo by (simp only: of_int_le_iff)
  then show "2 powi ?e \<le> round_double x"
    unfolding rd p52 using q by (simp only: mult_le_cancel_right_pos)
  have "(of_int (py_round (x / ?q)) :: rat) \<le> of_int (2 ^ 53)"
    using hi by (simp only: of_int_le_iff)
  then show "round_double x \<le> 2 powi (?e + 1)"
    unfolding rd p53 using q by (simp only: mult_le_cancel_right_pos)
qed

lemma round_double_mono_pos:
  assumes "0 < x" and "x \<le> y"
  shows "round_double x \<le> round_double y"
proof -
  have y: "0 < y" using assms by simp
  let ?ex = "floor_log2 x" and ?ey = "floor_log2 y"
  have "(2::rat) powi ?ex \<le> x" by (rule floor_log2_bounds(1) [OF assms(1)])
  also have "x \<le> y" by fact
  also have "y < 2 powi (?ey + 1)" by (rule floor_log2_bounds(2) [OF y])
  finally have "?ex < ?ey + 1" by (simp only: powi2_less_iff)
  then consider "?ex = ?ey" | "?ex + 1 \<le> ?ey" by linarith
  then show ?thesis
  proof cases
    case 1
    let ?q = "(2::rat) powi (?ey - 52)"
    have q: "0 < ?q" by simp
    have "x / ?q \<le> y / ?q" using assms(2) q by (simp add: divide_right_mono)
    then have "py_round (x / ?q) \<le> py_round (y / ?q)" by (rule py_round_mono)
    then have "(of_int (py_round (x / ?q)) :: rat) * ?q \<le> of_int (py_round (y / ?q)) * ?q"
      using q by (simp only: mult_le_cancel_right_pos of_int_le_iff)
    then show ?thesis using assms(1) y 1 by (simp add: round_double_def Let_def)
  next
    case 2
    have "round_double x \<le> 2 powi (?ex + 1)" by (rule round_double_pos_bounds(2) [OF assms(1)])
    also have "\<dots> \<le> 2 powi ?ey" using 2 by (intro power_int_increasing) simp_all
    also have "\<dots> \<le> round_double y" by (rule round_double_pos_bounds(1) [OF y])
    finally show ?thesis .
  qed
qed

lemma round_double_minus: "round_double (- x) = - round_double x"
  by (simp add: round_double_def Let_def)

lemma round_double_nonneg: "0 \<le> x \<Longrightarrow> 0 \<le> round_double x"
  by (auto simp: round_double_def Let_def py_round_nonneg intro!: mult_nonneg_nonneg)

lemma round_double_mono:
  assumes "x \<le> y"
  shows "round_double x \<le> round_double y"
proof -
  consider "0 < x" | "x \<le> 0" "0 \<le> y" | "y < 0" by linarith
  then show ?thesis
  proof cases
    case 1
    then show ?thesis using assms by (rule round_double_mono_pos)
  next
    case 2
    have "round_double x = - round_double (- x)" by (simp add: round_double_minus)
    moreover have "0 \<le> round_double (- x)" using 2(1) by (intro round_double_nonneg) simp
    moreover have "0 \<le> round_double y" using 2(2) by (rule round_double_nonneg)
    ultimately show ?thesis by linarith
  next
    case 3
    have "round_double (- y) \<le> round_double (- x)"
      using 3 assms by (intro round_double_mono_pos) simp_all
    then show ?thesis by (simp add: round_double_minus)
  qed
qed

lemma round_double_exact:
  assumes "0 < m" and "m < 2 ^ 53"
  shows "round_double (of_int m * 2 powi j) = of_int m * 2 powi j"
proof -
  let ?x = "(of_int m :: rat) * 2 powi j"
  have x: "0 < ?x" using assms(1) by simp
  let ?e = "floor_log2 ?x"
  have "(2::rat) powi ?e \<le> ?x" by (rule floor_log2_bounds(1) [OF x])
  also have "?x < of_int (2 ^ 53) * 2 powi j"
    using assms(2) by (simp only: mult_less_cancel_right_pos powi2_pos of_int_less_iff)
  also have "\<dots> = 2 powi (53 + j)" by (simp add: power_int_add)
  finally have "?e < 53 + j" by (simp only: powi2_less_iff)
  then have k: "0 \<le> j - ?e + 52" by simp
  let ?q = "(2::rat) powi (?e - 52)"
  have "?x / ?q = of_int m * 2 powi (j - ?e + 52)"
    by (simp add: power_int_diff power_int_add)
  also have "\<dots> = of_int (m * 2 ^ nat (j - ?e + 52))"
    using k by (simp add: power_int_def)
  finally have xq: "?x / ?q = of_int (m * 2 ^ nat (j - ?e + 52))" .
  have ax: "\<bar>?x\<bar> = ?x" "sgn ?x = 1" "?x \<noteq> 0" using x assms(1) by simp_all
  have "round_double ?x = of_int (py_round (?x / ?q)) * ?q"
    unfolding round_double_def Let_def ax using assms(1) by simp
  also have "\<dots> = (?x / ?q) * ?q"
    unfolding xq by (simp only: py_round_of_int)
  also have "\<dots> = ?x" by simp
  finally show ?thesis .
qed

lemma round_double_of_int:
  assumes "\<bar>k\<bar> < 2 ^ 53"
  shows "round_double (of_int k) = of_int k"
proof -
  consider "0 < k" | "k = 0" | "k < 0" by linarith
  then show ?thesis
  proof cases
    case 1
    then show ?thesis using assms round_double_exact [of k 0] by simp
  next
    case 2
    then show ?thesis by (simp add: round_double_def)
  next
    case 3
    then have "round_double (of_int (- k)) = of_int (- k)"
      using assms round_double_exact [of "- k" 0] by simp
    then show ?thesis by (simp add: round_double_minus)
  qed
qed

lemma py_int_round_double_div:
  assumes "0 \<le> a" and "1 \<le> b" and "a + b \<le> 2 ^ 52"
  shows "py_int (round_double (of_int a / of_int b)) = a div b"
proof -
  let ?k = "a div b"
  let ?x = "(of_int a :: rat) / of_int b"
  have bpos: "0 < b" using assms(2) by simp
  have k0: "0 \<le> ?k" using assms(1) bpos by (simp add: pos_imp_zdiv_nonneg_iff)
  have dm: "b * ?k + a mod b = a" by (rule mult_div_mod_eq)
  have md: "0 \<le> a mod b" "a mod b < b" using bpos by simp_all
  have "b * ?k \<le> a" "a < b * ?k + b" using dm md by linarith+
  then have kb: "?k * b \<le> a" and ab: "a < (?k + 1) * b"
    by (simp_all add: algebra_simps)
  have "?k * 1 \<le> ?k * b" using k0 assms(2) by (intro mult_left_mono) simp_all
  then have ka: "?k \<le> a" using kb by simp
  have x0: "0 \<le> ?x" using assms(1) bpos by simp
  \<comment> \<open>the quotient is not below the integer quotient\<close>
  have "of_int ?k \<le> ?x" using kb bpos
    by (simp add: pos_le_divide_eq del: of_int_mult flip: of_int_mult)
  then have "round_double (of_int ?k) \<le> round_double ?x" by (rule round_double_mono)
  moreover have "round_double (of_int ?k) = of_int ?k"
    using k0 ka assms by (intro round_double_of_int) simp
  ultimately have lo: "of_int ?k \<le> round_double ?x" by simp
  \<comment> \<open>a double strictly between the quotient and the next integer\<close>
  let ?j = "bitlen b"
  have j1: "1 \<le> ?j" using bpos by (simp add: bitlen_alt_def)
  have bj: "b < 2 ^ nat ?j" "2 ^ nat (?j - 1) \<le> b" using bitlen_bounds [OF bpos] by simp_all
  have two: "(2::int) ^ nat ?j = 2 * 2 ^ nat (?j - 1)"
    using j1 by (metis Suc_nat_eq_nat_zadd1 add.commute diff_add_cancel diff_ge_0_iff_ge
        power_Suc)
  let ?m = "(?k + 1) * 2 ^ nat ?j - 1"
  have mpos: "0 < ?m"
  proof -
    have "(1::int) \<le> 2 ^ nat ?j" by simp
    moreover have "(2::int) ^ nat ?j \<le> (?k + 1) * 2 ^ nat ?j" using k0 by simp
    moreover have "(2::int) \<le> 2 ^ nat ?j" using two by simp
    ultimately show ?thesis by linarith
  qed
  have "(?k + 1) * 2 ^ nat ?j = 2 * ((?k + 1) * 2 ^ nat (?j - 1))" using two by simp
  also have "\<dots> \<le> 2 * ((?k + 1) * b)"
    using bj(2) k0 by (intro mult_left_mono) simp_all
  also have "\<dots> = 2 * (?k * b + b)" by (simp add: algebra_simps)
  also have "\<dots> \<le> 2 * (a + b)" using kb by simp
  also have "\<dots> \<le> 2 ^ 53" using assms(3) by simp
  finally have mlt: "?m < 2 ^ 53" by simp
  let ?r = "(of_int ?m :: rat) * 2 powi (- ?j)"
  have pj: "(2::rat) powi ?j = of_int (2 ^ nat ?j)" using j1 by (simp add: power_int_def)
  have r: "?r = of_int (?k + 1) - 1 / of_int (2 ^ nat ?j)"
    by (simp add: power_int_minus pj field_simps)
  have "of_int a + 1 \<le> (of_int ((?k + 1) * b) :: rat)"
    using ab by (metis of_int_1 of_int_add of_int_le_iff zless_imp_add1_zle)
  then have "?x \<le> of_int (?k + 1) - 1 / of_int b"
    using bpos by (simp add: field_simps)
  also have "\<dots> \<le> of_int (?k + 1) - 1 / of_int (2 ^ nat ?j)"
  proof -
    have "(of_int b :: rat) \<le> of_int (2 ^ nat ?j)" using bj(1) by (simp only: of_int_le_iff)
    then have "1 / (of_int (2 ^ nat ?j) :: rat) \<le> 1 / of_int b"
      using bpos by (intro divide_left_mono) simp_all
    then show ?thesis by simp
  qed
  finally have xr: "?x \<le> ?r" by (simp only: r)
  have "round_double ?x \<le> round_double ?r" using xr by (rule round_double_mono)
  also have "round_double ?r = ?r" by (rule round_double_exact [OF mpos mlt])
  also have "?r < of_int (?k + 1)" unfolding r by simp
  finally have hi: "round_double ?x < of_int (?k + 1)" .
  have "0 \<le> round_double ?x" using x0 by (rule round_double_nonneg)
  then have "py_int (round_double ?x) = \<lfloor>round_double ?x\<rfloor>" by (simp add: py_int_def)
  also have "\<dots> = ?k" using lo hi by (simp add: floor_unique)
  finally show ?thesis .
qed

lemma py_int_nonneg: "0 \<le> x \<Longrightarrow> 0 \<le> py_int x"
  by (simp add: py_int_def)

lemma py_int_mono: "0 \<le> x \<Longrightarrow> x \<le> y \<Longrightarrow> py_int x \<le> py_int y"
  by (simp add: py_int_def floor_mono)

lemma valid_config_ms:
  assumes "valid_config p"
  shows "0 \<le> segment_duration_ms p"
    and "min_segment_duration_ms p \<le> segment_duration_ms p"
    and "0 \<le> step_size_ms p"
proof -
  have sd: "0 \<le> segment_duration p * 1000" and msd: "0 \<le> min_segment_duration p * 1000"
    and le: "min_segment_duration p * 1000 \<le> segment_duration p * 1000"
    and ov: "0 \<le> 1 - overlap_ratio p"
    using assms by (simp_all add: valid_config_def)
  show s: "0 \<le> segment_duration_ms p"
    unfolding segment_duration_ms_def
    by (intro py_int_nonneg round_double_nonneg sd)
  show "min_segment_duration_ms p \<le> segment_duration_ms p"
    unfolding segment_duration_ms_def min_segment_duration_ms_def
    by (intro py_int_mono round_double_nonneg round_double_mono msd le)
  have "0 \<le> float_of_int (segment_duration_ms p)"
    unfolding float_of_int_def using s by (intro round_double_nonneg) simp
  moreover have "0 \<le> round_double (1 - overlap_ratio p)"
    by (intro round_double_nonneg ov)
  ultimately have "0 \<le> float_of_int (segment_duration_ms p)
                        * round_double (1 - overlap_ratio p)"
    by (rule mult_nonneg_nonneg)
  then show "0 \<le> step_size_ms p"
    unfolding step_size_ms_def
    by (intro py_int_nonneg round_double_nonneg)
qed

lemma AudioProcessor_init_valid:
  "AudioProcessor_init sd ts ovr msd = Inr p \<Longrightarrow> valid_config p"
  by (auto simp: AudioProcessor_init_def valid_config_def split: if_splits)

subsection \<open>Window count and spans\<close>

text \<open>
  C1 (window count and spans of a clip longer than one segment), as amended. For a
  processor that satisfies the constructor's invariant and whose step, the integer
  \<open>int(segment_duration_ms * (1 - overlap_ratio))\<close> that the code computes in double
  arithmetic, is at least one millisecond, a clip of \<open>D\<close> ms with \<open>D\<close> greater than the
  segment duration (and \<open>D + step\<close> at most \<open>2^52\<close>, where the double quotient truncates
  to the integer quotient) is cut into \<open>max(1, floor((D - segment_duration) / step) + 1)\<close>
  windows; window \<open>i\<close> starts at \<open>i * step\<close> and ends at
  \<open>min(i * step + segment_duration, D)\<close>, which never exceeds \<open>D\<close>.
\<close>

theorem segment_windows_count_and_spans:
  assumes "valid_config p" and "segment_duration_ms p < D" and "1 \<le> step_size_ms p"
    and "D + step_size_ms p \<le> 2 ^ 52"
  shows "\<exists>ws. segment_windows p D = Inr ws
     \<and> int (length ws) = max 1 ((D - segment_duration_ms p) div step_size_ms p + 1)
     \<and> (\<forall>i < length ws.
           start_ms (ws ! i) = int i * step_size_ms p
         \<and> end_ms (ws ! i) = min (int i * step_size_ms p + segment_duration_ms p) D
         \<and> end_ms (ws ! i) \<le> D)"
proof -
  have s: "0 \<le> segment_duration_ms p" by (rule valid_config_ms(1) [OF assms(1)])
  have "py_int (round_double (of_int (D - segment_duration_ms p) / of_int (step_size_ms p)))
      = (D - segment_duration_ms p) div step_size_ms p"
    using assms(2-4) s by (intro py_int_round_double_div) simp_all
  then show ?thesis
    using assms(2,3)
    by (auto simp: segment_windows_def count_segments_def cut_window_def Let_def
             simp del: of_int_diff)
qed

theorem segment_windows_count_and_spans_witness:
  "valid_config overlap_09_processor
   \<and> segment_duration_ms overlap_09_processor = 3000
   \<and> step_size_ms overlap_09_processor = 299
   \<and> segment_duration_ms overlap_09_processor < 3299
   \<and> 1 \<le> step_size_ms overlap_09_processor
   \<and> 3299 + step_size_ms overlap_09_processor \<le> 2 ^ 52
   \<and> segment_windows overlap_09_processor 3299
       = Inr [\<lparr>win_index = 0, start_ms = 0, end_ms = 3000, natural_len = 3000,
               padded_len = 3000\<rparr>,
              \<lparr>win_index = 1, start_ms = 299, end_ms = 3299, natural_len = 3000,
               padded_len = 3000\<rparr>]
   \<and> (\<exists>ws. segment_windows overlap_09_processor 3299 = Inr ws
     \<and> int (length ws)
         = max 1 ((3299 - segment_duration_ms overlap_09_processor)
                  div step_size_ms overlap_09_processor + 1)
     \<and> (\<forall>i < length ws.
           start_ms (ws ! i) = int i * step_size_ms overlap_09_processor
         \<and> end_ms (ws ! i)
             = min (int i * step_size_ms overlap_09_processor
                    + segment_duration_ms overlap_09_processor) 3299
         \<and> end_ms (ws ! i) \<le> 3299))"
proof -
  have h0: "valid_config overlap_09_processor" by code_simp
  have h1: "segment_duration_ms overlap_09_processor < 3299" by code_simp
  have h2: "1 \<le> step_size_ms overlap_09_processor" by code_simp
  have h3: "3299 + step_size_ms overlap_09_processor \<le> 2 ^ 52" by code_simp
  have v: "segment_duration_ms overlap_09_processor = 3000"
    "step_size_ms overlap_09_processor = 299"
    by code_simp+
  have w: "segment_windows overlap_09_processor 3299
       = Inr [\<lparr>win_index = 0, start_ms = 0, end_ms = 3000, natural_len = 3000,
               padded_len = 3000\<rparr>,
              \<lparr>win_index = 1, start_ms = 299, end_ms = 3299, natural_len = 3000,
               padded_len = 3000\<rparr>]"
    by code_simp
  show ?thesis
    using h0 h1 h2 h3 v w segment_windows_count_and_spans [OF h0 h1 h2 h3] by blast
qed

text \<open>
  A processor that the constructor accepts can have a step of zero milliseconds: three
  second segments with an overlap ratio of 0.9999 give \<open>int(3000 * (1 - 0.9999)) = 0\<close>. On
  a four second clip the window count is then never computed: the division raises.
\<close>

theorem segment_windows_zero_step_counterexample:
  "AudioProcessor_init 3 (128, 128) (py_float (9999 / 10000)) 1
     = Inr (default_processor\<lparr>overlap_ratio := py_float (9999 / 10000)\<rparr>)
   \<and> segment_duration_ms (default_processor\<lparr>overlap_ratio := py_float (9999 / 10000)\<rparr>)
       < 4000
   \<and> step_size_ms (default_processor\<lparr>overlap_ratio := py_float (9999 / 10000)\<rparr>) = 0
   \<and> segment_windows (default_processor\<lparr>overlap_ratio := py_float (9999 / 10000)\<rparr>) 4000
     = Inl (Raise ZeroDivisionError ''division by zero'')"
  by code_simp

subsection \<open>Per-window padding\<close>

lemma slice_len_le:
  assumes "0 \<le> a" "0 \<le> s"
  shows "slice_len d a (min (a + s) d) \<le> s"
  using assms by (simp add: slice_len_def min_def max_def)

lemma natural_len_cut_window:
  assumes "0 \<le> step_size_ms p" "0 \<le> segment_duration_ms p"
  shows "natural_len (cut_window p d (int i)) \<le> segment_duration_ms p"
proof -
  have "0 \<le> int i * step_size_ms p" using assms by simp
  then have "slice_len d (int i * step_size_ms p)
               (min (int i * step_size_ms p + segment_duration_ms p) d)
             \<le> segment_duration_ms p"
    using assms(2) by (rule slice_len_le)
  then show ?thesis by (simp add: cut_window_def Let_def)
qed

lemma padded_len_cut_window:
  "padded_len (cut_window p d i) = pad_segment p (natural_len (cut_window p d i))"
  by (simp add: cut_window_def Let_def)

lemma segment_windows_member:
  assumes "segment_windows p D = Inr ws" "win \<in> set ws"
  shows "\<exists>d i. win = cut_window p d (int i)"
  using assms
  by (fastforce simp: segment_windows_def split: sum.splits prod.splits)

lemma exactly_one_padding:
  assumes "m \<le> s" "0 \<le> s" "n \<le> s"
  shows "length (filter id
     [n < m \<and> (if n < m then n + (m - n)
                else if n < s then (if of_int s * (8 / 10) \<le> (of_int n :: rat)
                                    then n + (s - n) else n)
                else n) = m,
      m \<le> n \<and> n < s \<and> (of_int s :: rat) * (8 / 10) \<le> of_int n
        \<and> (if n < m then n + (m - n)
            else if n < s then (if of_int s * (8 / 10) \<le> (of_int n :: rat)
                                then n + (s - n) else n)
            else n) = s,
      m \<le> n \<and> (of_int n :: rat) < of_int s * (8 / 10)
        \<and> (if n < m then n + (m - n)
            else if n < s then (if of_int s * (8 / 10) \<le> (of_int n :: rat)
                                then n + (s - n) else n)
            else n) = n,
      n = s
        \<and> (if n < m then n + (m - n)
            else if n < s then (if of_int s * (8 / 10) \<le> (of_int n :: rat)
                                then n + (s - n) else n)
            else n) = n]) = 1"
proof -
  have "(of_int s :: rat) * (8 / 10) \<le> of_int s" using assms(2) by simp
  then show ?thesis using assms by auto
qed

text \<open>
  C2 (the padding of each window), as amended. For a processor that satisfies the
  constructor's invariant and every window it cuts, exactly one of four outcomes
  holds: the natural length is below \<open>min_segment_duration\<close> and the window is padded to
  exactly \<open>min_segment_duration\<close>; or it is below \<open>segment_duration\<close> and at least
  \<open>0.8 * segment_duration\<close> and the window is padded to exactly \<open>segment_duration\<close>; or it
  lies in \<open>[min_segment_duration, 0.8 * segment_duration)\<close> and the window is left
  unpadded; or it equals \<open>segment_duration\<close> and the window is left unpadded. In each case
  the window goes on to feature extraction: when the export, the spectrogram and the image
  of the window succeed, its spectrogram path is appended.
\<close>

theorem window_padding_outcomes:
  assumes "valid_config p" and "segment_windows p D = Inr ws" and "win \<in> set ws"
  shows "length (filter id [padded_to_min p win, padded_to_segment p win,
                            left_unpadded_short p win, left_unpadded_full p win]) = 1
    \<and> (export_wav w (segment_path_of tmp win) (padded_len win) = None
        \<and> generate_mel_spectrogram w p (segment_path_of tmp win) None = Inr sp
        \<and> save_spectrogram_as_image w sp (spectrogram_path_of tmp win) = None
        \<longrightarrow> process_window w p tmp win = Inr (Some (spectrogram_path_of tmp win)))"
proof -
  obtain d i where win: "win = cut_window p d (int i)"
    using segment_windows_member [OF assms(2,3)] by blast
  note ms = valid_config_ms [OF assms(1)]
  have n: "natural_len win \<le> segment_duration_ms p"
    unfolding win by (rule natural_len_cut_window [OF ms(3) ms(1)])
  have pl: "padded_len win = pad_segment p (natural_len win)"
    unfolding win by (rule padded_len_cut_window)
  have one: "length (filter id [padded_to_min p win, padded_to_segment p win,
                                left_unpadded_short p win, left_unpadded_full p win]) = 1"
    unfolding padded_to_min_def padded_to_segment_def left_unpadded_short_def
      left_unpadded_full_def pl pad_segment_def
    by (rule exactly_one_padding [OF ms(2) ms(1) n])
  have fed: "export_wav w (segment_path_of tmp win) (padded_len win) = None
        \<and> generate_mel_spectrogram w p (segment_path_of tmp win) None = Inr sp
        \<and> save_spectrogram_as_image w sp (spectrogram_path_of tmp win) = None
        \<longrightarrow> process_window w p tmp win = Inr (Some (spectrogram_path_of tmp win))"
    by (simp add: process_window_def Let_def segment_path_of_def spectrogram_path_of_def)
  from one fed show ?thesis by blast
qed

theorem window_padding_outcomes_witness:
  "valid_config small_processor
   \<and> segment_windows small_processor 2000 = Inr [short_window]
   \<and> short_window \<in> set [short_window]
   \<and> left_unpadded_short small_processor short_window
   \<and> length (filter id [padded_to_min small_processor short_window,
                         padded_to_segment small_processor short_window,
                         left_unpadded_short small_processor short_window,
                         left_unpadded_full small_processor short_window]) = 1
   \<and> process_window (test_world 2000 blank_image (\<lambda>_. [])) small_processor ''/tmp/t'' short_window
       = Inr (Some (spectrogram_path_of ''/tmp/t'' short_window))"
proof -
  have h1: "valid_config small_processor" by code_simp
  have h2: "segment_windows small_processor 2000 = Inr [short_window]" by code_simp
  have h3: "short_window \<in> set [short_window]" by simp
  have h4: "export_wav (test_world 2000 blank_image (\<lambda>_. [])) (segment_path_of ''/tmp/t'' short_window)
              (padded_len short_window) = None"
    by (simp add: test_world_def)
  have h5: "generate_mel_spectrogram (test_world 2000 blank_image (\<lambda>_. [])) small_processor
              (segment_path_of ''/tmp/t'' short_window) None = Inr [[1, 2], [3, 4]]"
    by code_simp
  have h6: "save_spectrogram_as_image (test_world 2000 blank_image (\<lambda>_. [])) [[1, 2], [3, 4]]
              (spectrogram_path_of ''/tmp/t'' short_window) = None"
    by code_simp
  have h7: "left_unpadded_short small_processor short_window" by code_simp
  show ?thesis
    using window_padding_outcomes [OF h1 h2 h3, of "test_world 2000 blank_image (\<lambda>_. [])" "''/tmp/t''"
        "[[1, 2], [3, 4]]"] h1 h2 h3 h4 h5 h6 h7
    by blast
qed

text \<open>
  The first window of a seven second clip under the default processor has the full three
  seconds: it is not below the minimum, not below the segment duration, and not in
  \<open>[1000, 2400)\<close>, so none of the three outcomes of the padding rule as the
  specification words it describes this window.
\<close>

theorem full_window_padding_counterexample:
  "segment_windows default_processor 7000
     = Inr [\<lparr>win_index = 0, start_ms = 0, end_ms = 3000, natural_len = 3000,
             padded_len = 3000\<rparr>,
            \<lparr>win_index = 1, start_ms = 1500, end_ms = 4500, natural_len = 3000,
             padded_len = 3000\<rparr>,
            \<lparr>win_index = 2, start_ms = 3000, end_ms = 6000, natural_len = 3000,
             padded_len = 3000\<rparr>]
   \<and> \<not> spec_padding_outcomes default_processor
         \<lparr>win_index = 0, start_ms = 0, end_ms = 3000, natural_len = 3000,
          padded_len = 3000\<rparr>"
  by code_simp


subsection \<open>The shape of the spectrogram\<close>

lemma length_lerp_axis: "length (lerp_axis mix xs m) = m"
  by (simp add: lerp_axis_def)

lemma ncols_nonempty: "a \<noteq> [] \<Longrightarrow> ncols a = length (hd a)"
  by (cases a) (simp_all add: ncols_def)

lemma rect_rows: "rect a \<Longrightarrow> r \<in> set a \<Longrightarrow> length r = ncols a"
  by (simp add: rect_def list_all_iff)

lemma rect_map_const:
  assumes "\<And>r. r \<in> set a \<Longrightarrow> length (f r) = n"
  shows "rect (map f a) \<and> (a \<noteq> [] \<longrightarrow> ncols (map f a) = n)"
  using assms by (cases a) (auto simp: rect_def ncols_def list_all_iff)

lemma zoom_order1_shape:
  assumes "0 \<le> zh" "0 \<le> zw"
  shows "\<exists>out. zoom_order1 a (zh, zw) = Inr out \<and> rect out
           \<and> int (length out) = py_round (of_nat (length a) * zh)
           \<and> (out \<noteq> [] \<longrightarrow> int (ncols out) = py_round (of_nat (ncols a) * zw))"
proof -
  let ?h = "nat (py_round (of_nat (length a) * zh))"
  let ?w = "nat (py_round (of_nat (ncols a) * zw))"
  let ?rows = "lerp_axis mix_row a ?h"
  let ?out = "map (\<lambda>r. lerp_axis mix_rat r ?w) ?rows"
  have z: "zoom_order1 a (zh, zw) = Inr ?out" by (simp add: zoom_order1_def Let_def)
  have r: "rect ?out \<and> (?rows \<noteq> [] \<longrightarrow> ncols ?out = ?w)"
    by (rule rect_map_const) (simp add: length_lerp_axis)
  have h: "int (length ?out) = py_round (of_nat (length a) * zh)"
    using assms(1) by (simp add: length_lerp_axis py_round_nonneg)
  have w: "int ?w = py_round (of_nat (ncols a) * zw)"
    using assms(2) by (simp add: py_round_nonneg)
  show ?thesis using z r h w by auto
qed

lemma zoom_order1_shape_contract: "zoom w = zoom_order1 \<Longrightarrow> zoom_shape_contract w"
  unfolding zoom_shape_contract_def
  using zoom_order1_shape by (metis less_imp_le)

lemma lerp_axis_same_length:
  assumes "\<And>j k. j < length xs \<Longrightarrow> k < length xs \<Longrightarrow> mix 0 (xs ! j) (xs ! k) = xs ! j"
  shows "lerp_axis mix xs (length xs) = xs"
proof (rule nth_equalityI)
  show "length (lerp_axis mix xs (length xs)) = length xs" by (simp add: length_lerp_axis)
next
  fix j assume "j < length (lerp_axis mix xs (length xs))"
  then have j: "j < length xs" by (simp add: length_lerp_axis)
  show "lerp_axis mix xs (length xs) ! j = xs ! j"
  proof (cases "length xs \<le> 1")
    case True
    with j have "j = 0" by simp
    with j True show ?thesis by (simp add: lerp_axis_def assms)
  next
    case False
    then have "(of_nat j * of_nat (length xs - 1) / of_nat (length xs - 1) :: rat) = of_nat j"
      by simp
    moreover have "min (j + 1) (length xs - 1) < length xs" using j by simp
    ultimately show ?thesis using j False by (simp add: lerp_axis_def assms)
  qed
qed

lemma mix_rat_zero: "mix_rat 0 a b = a"
  by (simp add: mix_rat_def)

lemma mix_row_zero: "length r = length s \<Longrightarrow> mix_row 0 r s = r"
  by (induction r s rule: list_induct2) (simp_all add: mix_row_def mix_rat_zero)

lemma zoom_order1_unit:
  assumes "rect a"
  shows "zoom_order1 a (1, 1) = Inr a"
proof -
  have rows: "lerp_axis mix_row a (length a) = a"
  proof (rule lerp_axis_same_length)
    fix j k assume "j < length a" "k < length a"
    then have "length (a ! j) = length (a ! k)"
      using assms by (simp add: rect_rows)
    then show "mix_row 0 (a ! j) (a ! k) = a ! j" by (rule mix_row_zero)
  qed
  have cols: "map (\<lambda>r. lerp_axis mix_rat r (ncols a)) a = a"
  proof (rule map_idI)
    fix r assume "r \<in> set a"
    then have "length r = ncols a" using assms by (simp add: rect_rows)
    then show "lerp_axis mix_rat r (ncols a) = r"
      using lerp_axis_same_length [of r mix_rat] by (simp add: mix_rat_zero)
  qed
  show ?thesis
    by (simp add: zoom_order1_def py_round_of_int [of "int n" for n, simplified] rows cols)
qed

lemma zoom_order1_unit_contract: "zoom w = zoom_order1 \<Longrightarrow> zoom_unit_contract w"
  by (simp add: zoom_unit_contract_def zoom_order1_unit)

lemma crop_exact:
  assumes "rect out" "int (length out) = H" "out \<noteq> [] \<longrightarrow> int (ncols out) = W" "0 < H"
  shows "map (slice_to W) (slice_to H out) = out"
proof -
  have "out \<noteq> []" using assms(2,4) by auto
  then have w: "int (ncols out) = W" using assms(3) by simp
  have "slice_to H out = out" using assms(2,4) by (auto simp: slice_to_def)
  moreover have "map (slice_to W) out = out"
  proof (rule map_idI)
    fix r assume "r \<in> set out"
    then have "int (length r) = W" using assms(1) w by (simp add: rect_rows)
    then show "slice_to W r = r" by (auto simp: slice_to_def)
  qed
  ultimately show ?thesis by simp
qed

lemma resize_spectrogram_shape:
  assumes c: "zoom_shape_contract w"
    and a: "rect a" "a \<noteq> []" "ncols a \<noteq> 0"
    and t: "0 < H" "0 < W"
  shows "\<exists>out. resize_spectrogram w a (H, W) = Inr out
           \<and> shape out = (nat H, nat W) \<and> rect out"
proof -
  let ?zh = "(of_int H :: rat) / of_int (int (length a))"
  let ?zw = "(of_int W :: rat) / of_int (int (ncols a))"
  have la: "0 < length a" using a(2) by simp
  have pos: "0 < ?zh" "0 < ?zw" using t a la by simp_all
  obtain out where out: "zoom w a (?zh, ?zw) = Inr out" "rect out"
      "int (length out) = py_round (of_nat (length a) * ?zh)"
      "out \<noteq> [] \<longrightarrow> int (ncols out) = py_round (of_nat (ncols a) * ?zw)"
    using c a pos unfolding zoom_shape_contract_def by blast
  have "(of_nat (length a) :: rat) * ?zh = of_int H" using la by simp
  then have h: "int (length out) = H" using out(3) by (simp add: py_round_of_int)
  have "(of_nat (ncols a) :: rat) * ?zw = of_int W" using a(3) by simp
  then have wd: "out \<noteq> [] \<longrightarrow> int (ncols out) = W" using out(4) by (simp add: py_round_of_int)
  have crop: "map (slice_to W) (slice_to H out) = out"
    by (rule crop_exact [OF out(2) h wd t(1)])
  have sz: "array_size a \<noteq> 0" using a by (simp add: array_size_def)
  have res: "resize_spectrogram w a (H, W) = Inr out"
    using sz la a(3) pos out(1) crop
    by (simp add: resize_spectrogram_def Let_def not_le)
  have "out \<noteq> []" using h t(1) by auto
  then have "shape out = (nat H, nat W)" using h wd by (auto simp: shape_def)
  with res out(2) show ?thesis by blast
qed

text \<open>
  C5 (the spectrogram has the target shape). For a \<open>zoom\<close> that returns
  \<open>round(n * factor)\<close> entries along each axis, a positive target size \<open>(H, W)\<close> and a
  window for which the audio loads with samples and a positive rate and librosa returns
  a non-empty mel spectrogram and its decibel version, \<open>generate_mel_spectrogram\<close> returns
  an array, the one \<open>resize_spectrogram\<close> makes of the decibel spectrogram, and that
  array is rectangular of shape exactly \<open>(H, W)\<close>, whatever the number of samples and the
  shape of the mel spectrogram.
\<close>

theorem spectrogram_shape_is_target:
  assumes "zoom_shape_contract w"
    and "ts = (case tsize_opt of None \<Rightarrow> target_size p | Some t \<Rightarrow> t)"
    and "0 < fst ts" and "0 < snd ts"
    and "audio_path \<noteq> []" and "path_exists w audio_path"
    and "librosa_load w audio_path (segment_duration p) = Inr (Some y, Some sr)"
    and "y \<noteq> []" and "0 < sr"
    and "apply_preemphasis w y = Inr y'"
    and "melspectrogram w y' sr
           \<lparr>n_mels = 128, n_fft = 2048, hop_length = 512, fmin = 50, fmax = sr div 2,
            mel_window = ''hann''\<rparr> = Inr (Some mel)"
    and "array_size mel \<noteq> 0"
    and "power_to_db w mel 80 = Inr db"
    and "rect db" and "db \<noteq> []" and "ncols db \<noteq> 0"
  shows "\<exists>out. generate_mel_spectrogram w p audio_path tsize_opt = Inr out
           \<and> resize_spectrogram w db ts = Inr out
           \<and> shape out = (nat (fst ts), nat (snd ts)) \<and> rect out"
proof -
  obtain out where out: "resize_spectrogram w db (fst ts, snd ts) = Inr out"
      "shape out = (nat (fst ts), nat (snd ts))" "rect out"
    using resize_spectrogram_shape [OF assms(1) assms(14,15,16) assms(3,4)] by blast
  have "generate_mel_spectrogram w p audio_path tsize_opt = resize_spectrogram w db ts"
    using assms(5-13) by (simp add: generate_mel_spectrogram_def Let_def assms(2) not_le)
  with out show ?thesis by simp
qed

theorem spectrogram_shape_is_target_witness:
  "zoom_shape_contract (test_world 2000 blank_image (\<lambda>_. []))
   \<and> (0::int) < fst (3, 4) \<and> (0::int) < snd (3, 4)
   \<and> ''/tmp/t/segment_1.wav'' \<noteq> []
   \<and> path_exists (test_world 2000 blank_image (\<lambda>_. [])) ''/tmp/t/segment_1.wav''
   \<and> librosa_load (test_world 2000 blank_image (\<lambda>_. [])) ''/tmp/t/segment_1.wav''
        (segment_duration small_processor) = Inr (Some [0, 1, 0, -1], Some 22050)
   \<and> apply_preemphasis (test_world 2000 blank_image (\<lambda>_. [])) [0, 1, 0, -1] = Inr [0, 1, 0, -1]
   \<and> power_to_db (test_world 2000 blank_image (\<lambda>_. [])) [[1, 2], [3, 4]] 80 = Inr [[1, 2], [3, 4]]
   \<and> rect [[1, 2], [3, 4]]
   \<and> (\<exists>out. generate_mel_spectrogram (test_world 2000 blank_image (\<lambda>_. [])) small_processor
               ''/tmp/t/segment_1.wav'' (Some (3, 4)) = Inr out
           \<and> shape out = (3, 4) \<and> rect out)"
proof -
  let ?w = "test_world 2000 blank_image (\<lambda>_. [])"
  have h1: "zoom_shape_contract ?w"
    by (rule zoom_order1_shape_contract) (simp add: test_world_def)
  have h2: "(3, 4) = (case Some (3, 4) of None \<Rightarrow> target_size small_processor
                                        | Some t \<Rightarrow> t)" by simp
  have h3: "(0::int) < fst (3, 4)" and h4: "(0::int) < snd (3, 4)" by simp_all
  have h5: "''/tmp/t/segment_1.wav'' \<noteq> []" by simp
  have h6: "path_exists ?w ''/tmp/t/segment_1.wav''" by (simp add: test_world_def)
  have h7: "librosa_load ?w ''/tmp/t/segment_1.wav'' (segment_duration small_processor)
              = Inr (Some [0, 1, 0, -1], Some 22050)"
    by (simp add: test_world_def)
  have h8: "[0, 1, 0, -1 :: rat] \<noteq> []" and h9: "(0::int) < 22050" by simp_all
  have h10: "apply_preemphasis ?w [0, 1, 0, -1] = Inr [0, 1, 0, -1]"
    by (simp add: apply_preemphasis_def test_world_def)
  have h11: "melspectrogram ?w [0, 1, 0, -1] 22050
           \<lparr>n_mels = 128, n_fft = 2048, hop_length = 512, fmin = 50, fmax = 22050 div 2,
            mel_window = ''hann''\<rparr> = Inr (Some [[1, 2], [3, 4]])"
    by (simp add: test_world_def)
  have h12: "array_size [[1, 2], [3, 4]] \<noteq> 0" by (simp add: array_size_def ncols_def)
  have h13: "power_to_db ?w [[1, 2], [3, 4]] 80 = Inr [[1, 2], [3, 4]]"
    by (simp add: test_world_def)
  have h14: "rect [[1, 2], [3, 4]]" by (simp add: rect_def ncols_def)
  have h15: "[[1, 2], [3, 4 :: rat]] \<noteq> []" by simp
  have h16: "ncols [[1, 2], [3, 4]] \<noteq> 0" by (simp add: ncols_def)
  show ?thesis
    using spectrogram_shape_is_target [OF h1 h2 h3 h4 h5 h6 h7 h8 h9 h10 h11 h12 h13 h14 h15 h16]
      h1 h3 h4 h5 h6 h7 h10 h13 h14
    by auto
qed

text \<open>
  C9 (resizing at the target size is the identity). For a \<open>zoom\<close> that returns its
  argument when both factors are 1, \<open>resize_spectrogram\<close> applied to a non-empty
  rectangular array and that array's own shape returns the array unchanged: both scale
  factors are 1 and the final crop removes nothing.
\<close>

theorem resize_at_target_is_identity:
  assumes "zoom_unit_contract w" and "rect a" and "array_size a \<noteq> 0"
  shows "resize_spectrogram w a (int (length a), int (ncols a)) = Inr a"
proof -
  have ne: "a \<noteq> []" "ncols a \<noteq> 0" using assms(3) by (auto simp: array_size_def)
  then have z: "zoom w a (1, 1) = Inr a"
    using assms(1,2) unfolding zoom_unit_contract_def by blast
  have crop: "map (slice_to (int (ncols a))) (slice_to (int (length a)) a) = a"
    by (rule crop_exact [OF assms(2)]) (use ne in simp_all)
  show ?thesis
    using assms(3) ne z crop by (simp add: resize_spectrogram_def Let_def)
qed

theorem resize_at_target_is_identity_witness:
  "zoom_unit_contract (test_world 2000 blank_image (\<lambda>_. [])) \<and> rect [[1, 2], [3, 4]]
   \<and> array_size [[1, 2], [3, 4]] \<noteq> 0
   \<and> shape [[1, 2], [3, 4]] = (2, 2)
   \<and> resize_spectrogram (test_world 2000 blank_image (\<lambda>_. [])) [[1, 2], [3, 4]] (2, 2)
       = Inr [[1, 2], [3, 4]]"
proof -
  have h1: "zoom_unit_contract (test_world 2000 blank_image (\<lambda>_. []))"
    by (rule zoom_order1_unit_contract) (simp add: test_world_def)
  have h2: "rect [[1, 2], [3, 4]]" by (simp add: rect_def ncols_def)
  have h3: "array_size [[1, 2], [3, 4]] \<noteq> 0" by (simp add: array_size_def ncols_def)
  show ?thesis
    using resize_at_target_is_identity [OF h1 h2 h3] h1 h2 h3
    by (simp add: shape_def ncols_def)
qed

subsection \<open>The result dict of \<open>predict_image\<close>\<close>

lemma fold_update_keys:
  "fst ` set (fold (\<lambda>(i, class_name) result. AList.update class_name (f i) result)
                (enumerate n names) acc)
   = fst ` set acc \<union> set names"
  by (induction names arbitrary: n acc) (auto simp: dom_update)

lemma fold_update_distinct:
  "distinct (map fst acc) \<Longrightarrow>
   distinct (map fst (fold (\<lambda>(i, class_name) result. AList.update class_name (f i) result)
                (enumerate n names) acc))"
  by (induction names arbitrary: n acc) (auto simp: distinct_update)

lemma fold_update_other:
  "c \<notin> set names \<Longrightarrow>
   map_of (fold (\<lambda>(i, class_name) result. AList.update class_name (f i) result)
                (enumerate n names) acc) c = map_of acc c"
  by (induction names arbitrary: n acc) (auto simp: update_conv')

lemma fold_update_const:
  assumes "c \<in> set names" and "\<And>i. n \<le> i \<Longrightarrow> f i = v"
  shows "map_of (fold (\<lambda>(i, class_name) result. AList.update class_name (f i) result)
                (enumerate n names) acc) c = Some v"
  using assms
proof (induction names arbitrary: n acc)
  case Nil
  then show ?case by simp
next
  case (Cons x xs)
  show ?case
  proof (cases "c \<in> set xs")
    case True
    then show ?thesis using Cons.IH [of "Suc n"] Cons.prems(2) by simp
  next
    case False
    with Cons.prems(1) have "c = x" by simp
    then show ?thesis using False Cons.prems(2) [of n]
      by (simp add: fold_update_other update_conv')
  qed
qed

lemma predictions_to_dict_missing:
  assumes "i < length names" and "length row \<le> i"
  shows "map_of (predictions_to_dict names row) (names ! i) = Some 0"
proof -
  let ?f = "\<lambda>i. if i < length row then row ! i else 0"
  let ?step = "\<lambda>(i, class_name) result. AList.update class_name (?f i) result"
  let ?k = "length row"
  have split: "names = take ?k names @ drop ?k names" by simp
  have len: "length (take ?k names) = ?k" using assms by simp
  have "enumerate 0 names = enumerate 0 (take ?k names) @ enumerate ?k (drop ?k names)"
    using enumerate_append_eq [of 0 "take ?k names" "drop ?k names"] len by simp
  then have "predictions_to_dict names row
     = fold ?step (enumerate ?k (drop ?k names)) (fold ?step (enumerate 0 (take ?k names)) [])"
    by (simp add: predictions_to_dict_def)
  moreover have "names ! i \<in> set (drop ?k names)"
  proof -
    have "drop ?k names ! (i - ?k) = names ! i" using assms by simp
    moreover have "i - ?k < length (drop ?k names)" using assms by simp
    ultimately show ?thesis by (metis nth_mem)
  qed
  ultimately show ?thesis
    by (simp add: fold_update_const)
qed

text \<open>
  C8 (a probability vector of the wrong length), as amended. When the model is loaded,
  the image loads and the model returns a non-empty probability vector whose length
  differs from the number of class names, \<open>predict_image\<close> does not raise: it logs the
  mismatch with the two lengths and returns a dict whose keys are exactly the class
  names, in which every class at a position beyond the vector has probability 0.
\<close>

theorem predict_image_pads_missing_classes:
  assumes "if use_tflite pr then interpreter_loaded pr else model_loaded pr"
    and "ipath \<noteq> []" and "path_exists w ipath" and "path_readable w ipath"
    and "load_img w ipath = Inr img" and "concat (concat img) \<noteq> []"
    and "run_model w (use_tflite pr) img = Inr (Some (row # rest))"
    and "row \<noteq> []" and "length row \<noteq> length (class_names pr)"
  shows "\<exists>d. predict_image w pr ipath
               = ([PredictionLengthMismatch (length row) (length (class_names pr))], Inr d)
           \<and> fst ` set d = set (class_names pr) \<and> distinct (map fst d)
           \<and> (\<forall>i < length (class_names pr).
                 length row \<le> i \<longrightarrow> map_of d (class_names pr ! i) = Some 0)"
proof -
  let ?d = "predictions_to_dict (class_names pr) row"
  have "predict_image w pr ipath
          = ([PredictionLengthMismatch (length row) (length (class_names pr))], Inr ?d)"
  proof -
    have l1: "\<not> (use_tflite pr \<and> \<not> interpreter_loaded pr)"
      and l2: "\<not> (\<not> use_tflite pr \<and> \<not> model_loaded pr)"
      using assms(1) by (auto split: if_splits)
    show ?thesis
      using l1 l2 assms(2-9) by (simp add: predict_image_def)
  qed
  moreover have "fst ` set ?d = set (class_names pr)"
    by (simp add: predictions_to_dict_def fold_update_keys)
  moreover have "distinct (map fst ?d)"
    by (simp add: predictions_to_dict_def fold_update_distinct)
  ultimately show ?thesis
    using predictions_to_dict_missing by blast
qed

theorem predict_image_pads_missing_classes_witness:
  "(if use_tflite loaded_predictor then interpreter_loaded loaded_predictor
    else model_loaded loaded_predictor)
   \<and> path_exists two_class_world ''/tmp/t/spectrogram_1.png''
   \<and> path_readable two_class_world ''/tmp/t/spectrogram_1.png''
   \<and> load_img two_class_world ''/tmp/t/spectrogram_1.png''
       = Inr (blank_image ''/tmp/t/spectrogram_1.png'')
   \<and> run_model two_class_world (use_tflite loaded_predictor)
         (blank_image ''/tmp/t/spectrogram_1.png'') = Inr (Some ([9 / 10, 1 / 20] # []))
   \<and> length [9 / 10, 1 / 20 :: rat] \<noteq> length (class_names loaded_predictor)
   \<and> (\<exists>d. predict_image two_class_world loaded_predictor ''/tmp/t/spectrogram_1.png''
               = ([PredictionLengthMismatch (length [9 / 10, 1 / 20 :: rat])
                     (length (class_names loaded_predictor))], Inr d)
           \<and> fst ` set d = set (class_names loaded_predictor) \<and> distinct (map fst d)
           \<and> (\<forall>i < length (class_names loaded_predictor).
                 length [9 / 10, 1 / 20 :: rat] \<le> i
                 \<longrightarrow> map_of d (class_names loaded_predictor ! i) = Some 0))"
proof -
  let ?p = "''/tmp/t/spectrogram_1.png''"
  have h1: "if use_tflite loaded_predictor then interpreter_loaded loaded_predictor
            else model_loaded loaded_predictor" by code_simp
  have h2: "?p \<noteq> []" by simp
  have h3: "path_exists two_class_world ?p" by code_simp
  have h4: "path_readable two_class_world ?p" by code_simp
  have h5: "load_img two_class_world ?p = Inr (blank_image ?p)"
    by (simp add: two_class_world_def test_world_def)
  have h6: "concat (concat (blank_image ?p)) \<noteq> []" by code_simp
  have h7: "run_model two_class_world (use_tflite loaded_predictor) (blank_image ?p)
              = Inr (Some ([9 / 10, 1 / 20] # []))" by code_simp
  have h8: "[9 / 10, 1 / 20 :: rat] \<noteq> []" by simp
  have h9: "length [9 / 10, 1 / 20 :: rat] \<noteq> length (class_names loaded_predictor)"
    by code_simp
  show ?thesis
    using predict_image_pads_missing_classes [OF h1 h2 h3 h4 h5 h6 h7 h8 h9] h1 h3 h4 h5 h7 h9
    by blast
qed

text \<open>
  A model whose output row is empty has a length (0) different from the three configured
  classes, and \<open>predict_image\<close> raises a \<open>ValueError\<close> for it instead of returning a dict.
\<close>

theorem predict_image_empty_row_counterexample:
  "CNNModelPredictor_init empty_row_world ''m.h5'' None
     = Inr (loaded_predictor\<lparr>model_loaded := False\<rparr>)
   \<and> load_model empty_row_world (loaded_predictor\<lparr>model_loaded := False\<rparr>)
     = Inr loaded_predictor
   \<and> run_model empty_row_world False (blank_image ''/tmp/t/spectrogram_1.png'')
     = Inr (Some [[]])
   \<and> length ([] :: rat list) \<noteq> length (class_names loaded_predictor)
   \<and> predict_image empty_row_world loaded_predictor ''/tmp/t/spectrogram_1.png''
     = ([], Inl (Raise ValueError
                   ''Invalid predictions from model for /tmp/t/spectrogram_1.png''))"
  by code_simp

subsection \<open>The reference world runs every window\<close>

lemma path_join_nonempty: "b \<noteq> [] \<Longrightarrow> path_join a b \<noteq> []"
  by (auto simp: path_join_def)

lemma test_world_generate:
  assumes "0 < fst (target_size p)" "0 < snd (target_size p)" "path \<noteq> []"
  shows "\<exists>out. generate_mel_spectrogram (test_world D imgs rows) p path None = Inr out
           \<and> array_size out \<noteq> 0"
proof -
  let ?w = "test_world D imgs rows"
  have c: "zoom_shape_contract ?w"
    by (rule zoom_order1_shape_contract) (simp add: test_world_def)
  have r: "rect [[1, 2], [3, 4]]" "[[1, 2], [3, 4 :: rat]] \<noteq> []" "ncols [[1, 2], [3, 4]] \<noteq> 0"
    by (simp_all add: rect_def ncols_def)
  obtain out where out: "resize_spectrogram ?w [[1, 2], [3, 4]]
        (fst (target_size p), snd (target_size p)) = Inr out"
      "shape out = (nat (fst (target_size p)), nat (snd (target_size p)))"
    using resize_spectrogram_shape [OF c r assms(1,2)] by blast
  have "generate_mel_spectrogram ?w p path None
          = resize_spectrogram ?w [[1, 2], [3, 4]] (target_size p)"
    using assms(3)
    by (simp add: generate_mel_spectrogram_def apply_preemphasis_def test_world_def
        array_size_def ncols_def)
  moreover have "array_size out \<noteq> 0"
    using out(2) assms(1,2) by (simp add: shape_def array_size_def)
  ultimately show ?thesis using out(1) by simp
qed

lemma test_world_process_window:
  assumes "0 < fst (target_size p)" "0 < snd (target_size p)"
  shows "process_window (test_world D imgs rows) p tmp win = Inr (Some (spectrogram_path_of tmp win))"
proof -
  let ?w = "test_world D imgs rows"
  have ne: "segment_path_of tmp win \<noteq> []" "spectrogram_path_of tmp win \<noteq> []"
    by (simp_all add: segment_path_of_def spectrogram_path_of_def path_join_nonempty)
  obtain out where out: "generate_mel_spectrogram ?w p (segment_path_of tmp win) None = Inr out"
      "array_size out \<noteq> 0"
    using test_world_generate [OF assms ne(1)] by blast
  have e: "export_wav ?w (segment_path_of tmp win) (padded_len win) = None"
    by (simp add: test_world_def)
  have sv: "save_spectrogram_as_image ?w out (spectrogram_path_of tmp win) = None"
    using out(2) ne(2) by (simp add: save_spectrogram_as_image_def Let_def test_world_def)
  show ?thesis
    using e out(1) sv
    by (simp add: process_window_def Let_def segment_path_of_def spectrogram_path_of_def)
qed

lemma test_world_process_windows:
  assumes "0 < fst (target_size p)" "0 < snd (target_size p)"
  shows "process_windows (test_world D imgs rows) p tmp wins acc
           = Inr (acc @ map (spectrogram_path_of tmp) wins)"
  by (induction wins arbitrary: acc) (simp_all add: test_world_process_window [OF assms])

lemma test_world_segment_audio_file:
  assumes "0 < fst (target_size p)" "0 < snd (target_size p)"
    and "ifile \<noteq> []" "temp_dir p = Some tmp" "D \<noteq> 0"
    and "segment_windows p D = Inr wins" "wins \<noteq> []"
  shows "segment_audio_file (test_world D imgs rows) p ifile
           = Inr (map (spectrogram_path_of tmp) wins)"
proof -
  have "from_file (test_world D imgs rows) ifile = Inr D" "path_exists (test_world D imgs rows) ifile"
    "path_readable (test_world D imgs rows) ifile"
    by (simp_all add: test_world_def)
  then show ?thesis
    using assms(3-7)
    by (simp add: segment_audio_file_def test_world_process_windows [OF assms(1,2)])
qed

subsection \<open>One result per spectrogram\<close>

lemma predict_one_fields:
  assumes "predict_one w pr i path = Inr r"
  shows "segment_index r = int i + 1" "image_path r = path"
    "timestamp_start r = of_nat i * 5" "timestamp_end r = (of_nat i + 1) * 5"
  using assms
  by (auto simp: predict_one_def error_result_def split: sum.splits option.splits if_splits)

lemma predict_one_total:
  assumes "\<not> interrupted (snd (predict_image w pr path))"
  shows "\<exists>r. predict_one w pr i path = Inr r
            \<and> (\<forall>e. snd (predict_image w pr path) = Inl e \<longrightarrow> r = error_result i path (str_exn e))"
  using assms
  by (auto simp: predict_one_def interrupted_def split: sum.splits option.splits)

lemma predict_loop_partial:
  assumes "predict_loop w pr xs acc = Inr res"
  shows "\<exists>new. res = acc @ new \<and> length new = length xs
           \<and> (\<forall>k < length xs. predict_one w pr (fst (xs ! k)) (snd (xs ! k)) = Inr (new ! k))"
  using assms
proof (induction xs arbitrary: acc)
  case Nil
  then show ?case by simp
next
  case (Cons x xs)
  obtain i path where x: "x = (i, path)" by (cases x)
  from Cons.prems x obtain r where r: "predict_one w pr i path = Inr r"
      and rest: "predict_loop w pr xs (acc @ [r]) = Inr res"
    by (auto split: sum.splits)
  from Cons.IH [OF rest] obtain new where new: "res = (acc @ [r]) @ new" "length new = length xs"
      "\<forall>k < length xs. predict_one w pr (fst (xs ! k)) (snd (xs ! k)) = Inr (new ! k)"
    by blast
  have "\<forall>k < length (x # xs).
          predict_one w pr (fst ((x # xs) ! k)) (snd ((x # xs) ! k)) = Inr ((r # new) ! k)"
    using new(3) r x by (auto simp: nth_Cons split: nat.splits)
  then show ?case using new(1,2) by (intro exI [of _ "r # new"]) simp
qed

lemma predict_loop_total:
  assumes "\<forall>x \<in> set xs. \<not> interrupted (snd (predict_image w pr (snd x)))"
  shows "\<exists>res. predict_loop w pr xs acc = Inr res"
  using assms
proof (induction xs arbitrary: acc)
  case Nil
  then show ?case by simp
next
  case (Cons x xs)
  obtain i path where x: "x = (i, path)" by (cases x)
  with Cons.prems have "\<not> interrupted (snd (predict_image w pr path))" by simp
  then obtain r where "predict_one w pr i path = Inr r"
    using predict_one_total by blast
  then show ?case using Cons.IH [of "acc @ [r]"] Cons.prems x by simp
qed

lemma summarize_counts:
  "total_segments (summarize preds) = int (length preds)"
  "successful_predictions (summarize preds) \<le> total_segments (summarize preds)"
  "successful_predictions (summarize preds) \<le> int (length preds)"
  by (auto simp: summarize_def Let_def split: prod.splits)

lemma predict_spectrograms_length:
  assumes "predict_spectrograms w pr paths = Inr res"
  shows "length res = length paths"
  using predict_loop_partial [OF assms [unfolded predict_spectrograms_def]] by auto

lemma process_audio_file_summary_cases:
  assumes "mkdtemp w = Inr tmp"
    and "segment_audio_file w (default_processor\<lparr>temp_dir := Some tmp\<rparr>) ifile = Inr ps"
    and "process_audio_file w ifile mpath od = Inr r"
    and "summary r = Some s"
  shows "(ps = [] \<and> total_segments s = 0 \<and> successful_predictions s = 0)
       \<or> (\<exists>pr preds. predict_spectrograms w pr ps = Inr preds \<and> s = summarize preds)"
proof -
  have init: "AudioProcessor_init 3 (128, 128) (1 / 2) 1 = Inr default_processor"
    by (simp add: AudioProcessor_init_def default_processor_def)
  show ?thesis
    using assms(3,4)
    by (auto simp: process_audio_file_def with_processor_def init assms(1,2) Let_def
        split: if_splits sum.splits option.splits) blast+
qed

lemma process_audio_file_summary:
  assumes "mkdtemp w = Inr tmp"
    and "segment_audio_file w (default_processor\<lparr>temp_dir := Some tmp\<rparr>) ifile = Inr ps"
    and "process_audio_file w ifile mpath od = Inr r"
    and "summary r = Some s"
  shows "total_segments s = int (length ps) \<and> successful_predictions s \<le> total_segments s"
  using process_audio_file_summary_cases [OF assms]
proof (elim disjE exE conjE)
  assume "ps = []" "total_segments s = 0" "successful_predictions s = 0"
  then show ?thesis by simp
next
  fix pr preds
  assume p: "predict_spectrograms w pr ps = Inr preds" and s: "s = summarize preds"
  have "length preds = length ps" by (rule predict_spectrograms_length [OF p])
  then show ?thesis unfolding s using summarize_counts [of preds] by simp
qed

subsection \<open>The partial failure scenario, evaluated\<close>

lemma scenario_segment_windows:
  "segment_windows scenario_processor 7000 = Inr scenario_windows"
  by code_simp

lemma scenario_segment_audio_file:
  "segment_audio_file scenario_world scenario_processor ''a.wav'' = Inr scenario_paths"
proof -
  have t: "0 < fst (target_size scenario_processor)" "0 < snd (target_size scenario_processor)"
    "temp_dir scenario_processor = Some ''/tmp/t''"
    by (simp_all add: scenario_processor_def default_processor_def)
  have w: "scenario_windows \<noteq> []" by (simp add: scenario_windows_def)
  have "segment_audio_file (test_world 7000 imgs rows) scenario_processor ''a.wav''
          = Inr (map (spectrogram_path_of ''/tmp/t'') scenario_windows)" for imgs rows
    by (rule test_world_segment_audio_file [OF t(1,2) _ t(3) _ scenario_segment_windows w])
       simp_all
  moreover have "map (spectrogram_path_of ''/tmp/t'') scenario_windows = scenario_paths"
    by code_simp
  ultimately show ?thesis by (simp add: scenario_world_def)
qed

lemma scenario_predictor:
  "CNNModelPredictor_init scenario_world ''m.h5'' None
     = Inr (loaded_predictor\<lparr>model_loaded := False\<rparr>)"
  "load_model scenario_world (loaded_predictor\<lparr>model_loaded := False\<rparr>) = Inr loaded_predictor"
  by code_simp+

lemma scenario_predict_spectrograms:
  "predict_spectrograms scenario_world loaded_predictor scenario_paths = Inr scenario_segments"
  by code_simp

lemma scenario_summarize: "summarize scenario_segments = scenario_summary"
  by code_simp

lemma scenario_process_audio_file:
  "process_audio_file scenario_world ''a.wav'' ''m.h5'' None = Inr scenario_report"
proof -
  have init: "AudioProcessor_init 3 (128, 128) (1 / 2) 1 = Inr default_processor"
    by (simp add: AudioProcessor_init_def default_processor_def)
  have tmp: "mkdtemp scenario_world = Inr ''/tmp/t''"
    by (simp add: scenario_world_def test_world_def)
  have d: "dirname ''a.wav'' = []" by code_simp
  have ne: "scenario_paths \<noteq> []" by (simp add: scenario_paths_def)
  show ?thesis
    using scenario_segment_audio_file [unfolded scenario_processor_def] ne
    by (simp add: process_audio_file_def with_processor_def init tmp d scenario_predictor
        scenario_predict_spectrograms scenario_summarize scenario_report_def)
qed

text \<open>
  C10 (one result per spectrogram). When no classification is ended by an interrupt,
  \<open>predict_spectrograms\<close> returns exactly one entry per input path, in input order,
  entry \<open>k\<close> (0-based) carrying the path \<open>k\<close> and \<open>segment_index = k + 1\<close>; a
  classification that raises gives an entry with the key \<open>error\<close> holding the message
  instead of being dropped. So the summary of these entries has \<open>total_segments\<close> equal
  to the number of paths and \<open>successful_predictions\<close> at most \<open>total_segments\<close>, and the
  same holds for the summary of every report that \<open>process_audio_file\<close> returns with a
  summary, against the paths that the segmentation returned.
\<close>

theorem predict_spectrograms_one_result_per_path:
  assumes "\<forall>path \<in> set paths. \<not> interrupted (snd (predict_image w pr path))"
  shows "\<exists>res. predict_spectrograms w pr paths = Inr res
     \<and> length res = length paths
     \<and> (\<forall>k < length paths.
           image_path (res ! k) = paths ! k \<and> segment_index (res ! k) = int k + 1
         \<and> (\<forall>e. snd (predict_image w pr (paths ! k)) = Inl e
                \<longrightarrow> error (res ! k) = Some (str_exn e)))
     \<and> total_segments (summarize res) = int (length paths)
     \<and> successful_predictions (summarize res) \<le> total_segments (summarize res)
     \<and> (mkdtemp w = Inr tmp
        \<and> segment_audio_file w (default_processor\<lparr>temp_dir := Some tmp\<rparr>) ifile = Inr ps
        \<and> process_audio_file w ifile mpath od = Inr r \<and> summary r = Some s
        \<longrightarrow> total_segments s = int (length ps)
            \<and> successful_predictions s \<le> total_segments s)"
proof -
  let ?xs = "enumerate 0 paths"
  have "\<forall>x \<in> set ?xs. \<not> interrupted (snd (predict_image w pr (snd x)))"
    using assms by (auto simp: in_set_enumerate_eq)
  then obtain res where res: "predict_loop w pr ?xs [] = Inr res"
    using predict_loop_total by blast
  obtain new where new: "res = [] @ new" "length new = length ?xs"
      "\<forall>k < length ?xs. predict_one w pr (fst (?xs ! k)) (snd (?xs ! k)) = Inr (new ! k)"
    using predict_loop_partial [OF res] by blast
  have len: "length res = length paths" using new(1,2) by simp
  have one: "predict_one w pr k (paths ! k) = Inr (res ! k)" if "k < length paths" for k
    using new(1,3) that by (simp add: nth_enumerate_eq)
  have each: "image_path (res ! k) = paths ! k \<and> segment_index (res ! k) = int k + 1
         \<and> (\<forall>e. snd (predict_image w pr (paths ! k)) = Inl e
                \<longrightarrow> error (res ! k) = Some (str_exn e))" if k: "k < length paths" for k
  proof -
    have ni: "\<not> interrupted (snd (predict_image w pr (paths ! k)))"
      using assms k by simp
    obtain r0 where r0: "predict_one w pr k (paths ! k) = Inr r0"
        "\<forall>e. snd (predict_image w pr (paths ! k)) = Inl e
             \<longrightarrow> r0 = error_result k (paths ! k) (str_exn e)"
      using predict_one_total [OF ni] by blast
    have eq: "r0 = res ! k" using r0(1) one [OF k] by simp
    show ?thesis
      using predict_one_fields(1,2) [OF one [OF k]] r0(2) eq
      by (auto simp: error_result_def)
  qed
  have proc: "mkdtemp w = Inr tmp
        \<and> segment_audio_file w (default_processor\<lparr>temp_dir := Some tmp\<rparr>) ifile = Inr ps
        \<and> process_audio_file w ifile mpath od = Inr r \<and> summary r = Some s
        \<longrightarrow> total_segments s = int (length ps)
            \<and> successful_predictions s \<le> total_segments s"
    using process_audio_file_summary by blast
  show ?thesis
    using res len each proc summarize_counts(1,2) [of res]
    by (auto simp: predict_spectrograms_def)
qed

theorem predict_spectrograms_one_result_per_path_witness:
  "list_all (\<lambda>path. \<not> interrupted (snd (predict_image scenario_world loaded_predictor path)))
     scenario_paths
   \<and> predict_spectrograms scenario_world loaded_predictor scenario_paths = Inr scenario_segments
   \<and> length scenario_segments = length scenario_paths
   \<and> map image_path scenario_segments = scenario_paths
   \<and> map segment_index scenario_segments = [1, 2, 3]
   \<and> map error scenario_segments
       = [None, Some ''Invalid predictions from model for /tmp/t/spectrogram_2.png'', None]
   \<and> mkdtemp scenario_world = Inr ''/tmp/t''
   \<and> segment_audio_file scenario_world (default_processor\<lparr>temp_dir := Some ''/tmp/t''\<rparr>)
        ''a.wav'' = Inr scenario_paths
   \<and> process_audio_file scenario_world ''a.wav'' ''m.h5'' None = Inr scenario_report
   \<and> summary scenario_report = Some scenario_summary
   \<and> total_segments scenario_summary = int (length scenario_paths)
   \<and> successful_predictions scenario_summary \<le> total_segments scenario_summary"
proof -
  have h1: "\<forall>path \<in> set scenario_paths.
       \<not> interrupted (snd (predict_image scenario_world loaded_predictor path))"
    by code_simp
  have h2: "mkdtemp scenario_world = Inr ''/tmp/t''"
    by (simp add: scenario_world_def test_world_def)
  have h3: "segment_audio_file scenario_world (default_processor\<lparr>temp_dir := Some ''/tmp/t''\<rparr>)
        ''a.wav'' = Inr scenario_paths"
    using scenario_segment_audio_file by (simp add: scenario_processor_def)
  have h4: "summary scenario_report = Some scenario_summary"
    by (simp add: scenario_report_def)
  have h5: "map image_path scenario_segments = scenario_paths"
    "map segment_index scenario_segments = [1, 2, 3]"
    "map error scenario_segments
       = [None, Some ''Invalid predictions from model for /tmp/t/spectrogram_2.png'', None]"
    "length scenario_segments = length scenario_paths"
    by (simp_all add: scenario_segments_def scenario_paths_def)
  show ?thesis
    using predict_spectrograms_one_result_per_path [OF h1, of "''/tmp/t''" "''a.wav''"
        scenario_paths "''m.h5''" None scenario_report scenario_summary]
      h1 h2 h3 h4 h5 scenario_process_audio_file scenario_predict_spectrograms
    by (simp add: list_all_iff)
qed

subsection \<open>The coarse mode\<close>

lemma scenario_format:
  "format_results_for_flutter (Some ''m.h5'') scenario_report = scenario_flutter_report"
  by code_simp

lemma scenario_analyze_audio_file:
  "analyze_audio_file scenario_world scenario_service ''a.wav'' None
     = Inr scenario_flutter_report"
proof -
  have "path_exists scenario_world p" "path_readable scenario_world p" for p
    by (simp_all add: scenario_world_def test_world_def)
  then show ?thesis
    by (simp add: analyze_audio_file_def scenario_service_def scenario_process_audio_file
        scenario_format)
qed

text \<open>
  C3 (the span of a coarse event), evaluated on the scenario. The seven second clip is
  cut into the windows \<open>[0, 3000)\<close>, \<open>[1500, 4500)\<close> and \<open>[3000, 6000)\<close>; the only
  event comes from the third window, and its span is \<open>t0 = 10000\<close>, \<open>t1 = 15000\<close>:
  five seconds per position in the list of spectrograms, not the span of the window.
\<close>

theorem coarse_event_span_is_not_window_span:
  "segment_windows scenario_processor 7000 = Inr scenario_windows
   \<and> analyze_audio_file scenario_world scenario_service ''a.wav'' None
       = Inr scenario_flutter_report
   \<and> map event_confidence (events scenario_flutter_report) = [9 / 10]
   \<and> map t0 (events scenario_flutter_report) = [10000]
   \<and> map t1 (events scenario_flutter_report) = [15000]
   \<and> map start_ms scenario_windows = [0, 1500, 3000]
   \<and> map end_ms scenario_windows = [3000, 4500, 6000]"
  using scenario_segment_windows scenario_analyze_audio_file
  by (simp add: scenario_flutter_report_def scenario_windows_def)





lemma tally_fold_snd:
  "snd (fold (\<lambda>pred (class_counts, total_confidence).
             let class_name = (case predicted_class pred of None \<Rightarrow> ''unknown'' | Some c \<Rightarrow> c);
                 conf = (case confidence pred of None \<Rightarrow> 0 | Some c \<Rightarrow> c)
             in (AList.update class_name
                   ((case map_of class_counts class_name of None \<Rightarrow> 0 | Some n \<Rightarrow> n) + 1)
                   class_counts,
                 total_confidence + conf))
          preds acc)
   = snd acc + sum_list (map (\<lambda>p. case confidence p of None \<Rightarrow> 0 | Some c \<Rightarrow> c) preds)"
  by (induction preds arbitrary: acc) (auto simp: Let_def split: prod.splits)

lemma summarize_average:
  "average_confidence (summarize preds) = mean (successful_confidences preds)"
proof -
  have s: "snd (tally xs)
             = sum_list (map (\<lambda>p. case confidence p of None \<Rightarrow> 0 | Some c \<Rightarrow> c) xs)" for xs
    using tally_fold_snd [of xs "([], 0)"] by (simp add: tally_def)
  have "t = sum_list (map (\<lambda>p. case confidence p of None \<Rightarrow> 0 | Some c \<Rightarrow> c) xs)"
    if "tally xs = (cc, t)" for xs cc t
    using s [of xs] that by simp
  then show ?thesis
    by (auto simp: summarize_def Let_def mean_def successful_confidences_def
        split: prod.splits)
qed

lemma process_audio_file_report_cases:
  assumes "process_audio_file w ifile mpath od = Inr r"
  shows "(segments r = [] \<and> summary r = None)
       \<or> (segments r = [] \<and> (\<exists>s. summary r = Some s \<and> average_confidence s = 0))
       \<or> summary r = Some (summarize (segments r))"
  using assms
  by (auto simp: process_audio_file_def with_processor_def Let_def
      split: if_splits sum.splits option.splits prod.splits)

text \<open>
  C6 (the average confidence of the coarse mode), as amended. For every report that
  \<open>process_audio_file\<close> returns, the field \<open>averageConfidence\<close> of the formatted summary
  is the arithmetic mean of the confidences of all successfully classified windows,
  whether or not their events are emitted, and 0 when there is none.
\<close>

theorem average_confidence_over_successful_windows:
  assumes "process_audio_file w ifile mpath od = Inr r"
  shows "averageConfidence (report_summary (format_results_for_flutter mp r))
           = mean (successful_confidences (segments r))"
proof -
  have a: "averageConfidence (report_summary (format_results_for_flutter mp r))
             = (case summary r of None \<Rightarrow> 0 | Some s \<Rightarrow> average_confidence s)"
    by (simp add: format_results_for_flutter_def Let_def)
  have e: "mean (successful_confidences []) = 0"
    by (simp add: mean_def successful_confidences_def)
  show ?thesis
    using process_audio_file_report_cases [OF assms]
    by (auto simp: a e summarize_average)
qed

theorem average_confidence_over_successful_windows_witness:
  "process_audio_file scenario_world ''a.wav'' ''m.h5'' None = Inr scenario_report
   \<and> successful_confidences (segments scenario_report) = [1 / 5, 9 / 10]
   \<and> averageConfidence (report_summary (format_results_for_flutter (Some ''m.h5'')
         scenario_report)) = mean [1 / 5, 9 / 10]
   \<and> mean [1 / 5, 9 / 10] = 11 / 20"
proof -
  have h: "successful_confidences (segments scenario_report) = [1 / 5, 9 / 10]"
    by code_simp
  have m: "mean [1 / 5, 9 / 10] = 11 / 20" by code_simp
  show ?thesis
    using average_confidence_over_successful_windows [OF scenario_process_audio_file,
        of "Some ''m.h5''"] scenario_process_audio_file h m
    by simp
qed

text \<open>
  In the scenario two windows are classified, with confidences 0.2 and 0.9, and only the
  second passes the threshold: the mean over the emitted events is 0.9, the field is
  0.55.
\<close>

theorem average_confidence_counterexample:
  "analyze_audio_file scenario_world scenario_service ''a.wav'' None
     = Inr scenario_flutter_report
   \<and> averageConfidence (report_summary scenario_flutter_report) = 11 / 20
   \<and> mean (map event_confidence (events scenario_flutter_report)) = 9 / 10
   \<and> averageConfidence (report_summary scenario_flutter_report)
       \<noteq> mean (map event_confidence (events scenario_flutter_report))"
proof -
  have "averageConfidence (report_summary scenario_flutter_report) = 11 / 20"
    "mean (map event_confidence (events scenario_flutter_report)) = 9 / 10"
    by code_simp+
  then show ?thesis using scenario_analyze_audio_file by simp
qed

subsection \<open>A failed segmentation\<close>

text \<open>
  C7 (a failed segmentation), as amended. When the arguments are accepted and the
  segmentation raises an \<open>Exception\<close>, \<open>process_audio_file\<close> raises nothing and returns
  at once a report with the keys of every report: no segments, an empty summary and
  exactly one entry in \<open>errors\<close>, the message prefixed with \<open>Segmentation error\<close>. The
  formatter reads the empty summary through its defaults, so the formatted report has
  no events and zeros for the totals and the average confidence, and carries the error
  entry.
\<close>

theorem segmentation_failure_report:
  assumes "ifile \<noteq> []" and "mpath \<noteq> []"
    and "odir = (case od of None \<Rightarrow> dirname ifile | Some d \<Rightarrow> d)"
    and "(if odir \<noteq> [] then makedirs w odir else None) = None"
    and "mkdtemp w = Inr tmp"
    and "segment_audio_file w (default_processor\<lparr>temp_dir := Some tmp\<rparr>) ifile = Inl e"
    and "is_Exception e"
  shows "process_audio_file w ifile mpath od
           = Inr \<lparr>input_file = ifile, report_model_path = mpath, output_dir = odir,
                  segments = [], summary = None,
                  errors = [''Segmentation error: '' @ str_exn e]\<rparr>
    \<and> events (format_results_for_flutter mp
         \<lparr>input_file = ifile, report_model_path = mpath, output_dir = odir,
          segments = [], summary = None,
          errors = [''Segmentation error: '' @ str_exn e]\<rparr>) = []
    \<and> totalSegments (report_summary (format_results_for_flutter mp
         \<lparr>input_file = ifile, report_model_path = mpath, output_dir = odir,
          segments = [], summary = None,
          errors = [''Segmentation error: '' @ str_exn e]\<rparr>)) = 0
    \<and> successfulPredictions (report_summary (format_results_for_flutter mp
         \<lparr>input_file = ifile, report_model_path = mpath, output_dir = odir,
          segments = [], summary = None,
          errors = [''Segmentation error: '' @ str_exn e]\<rparr>)) = 0
    \<and> averageConfidence (report_summary (format_results_for_flutter mp
         \<lparr>input_file = ifile, report_model_path = mpath, output_dir = odir,
          segments = [], summary = None,
          errors = [''Segmentation error: '' @ str_exn e]\<rparr>)) = 0
    \<and> info_errors (report_info (format_results_for_flutter mp
         \<lparr>input_file = ifile, report_model_path = mpath, output_dir = odir,
          segments = [], summary = None,
          errors = [''Segmentation error: '' @ str_exn e]\<rparr>))
        = [''Segmentation error: '' @ str_exn e]"
proof -
  have init: "AudioProcessor_init 3 (128, 128) (1 / 2) 1 = Inr default_processor"
    by (simp add: AudioProcessor_init_def default_processor_def)
  have "process_audio_file w ifile mpath od
           = Inr \<lparr>input_file = ifile, report_model_path = mpath, output_dir = odir,
                  segments = [], summary = None,
                  errors = [''Segmentation error: '' @ str_exn e]\<rparr>"
    using assms(1,2,4-7)
    by (simp add: process_audio_file_def with_processor_def init Let_def assms(3) [symmetric])
  then show ?thesis
    by (simp add: format_results_for_flutter_def Let_def format_events_def map_filter_def)
qed

lemma decode_error_segment_audio_file:
  "segment_audio_file decode_error_world (default_processor\<lparr>temp_dir := Some ''/tmp/t''\<rparr>)
     ''a.wav'' = Inl (Raise OtherException ''could not decode'')"
  by (simp add: segment_audio_file_def decode_error_world_def scenario_world_def
      test_world_def)

theorem segmentation_failure_report_witness:
  "mkdtemp decode_error_world = Inr ''/tmp/t''
   \<and> segment_audio_file decode_error_world (default_processor\<lparr>temp_dir := Some ''/tmp/t''\<rparr>)
       ''a.wav'' = Inl (Raise OtherException ''could not decode'')
   \<and> is_Exception (Raise OtherException ''could not decode'')
   \<and> process_audio_file decode_error_world ''a.wav'' ''m.h5'' None = Inr decode_error_report
   \<and> segments decode_error_report = []
   \<and> summary decode_error_report = None
   \<and> errors decode_error_report = [''Segmentation error: could not decode'']"
proof -
  have h1: "''a.wav'' \<noteq> []" and h2: "''m.h5'' \<noteq> []" by simp_all
  have h3: "[] = (case None of None \<Rightarrow> dirname ''a.wav'' | Some d \<Rightarrow> d)" by code_simp
  have h4: "(if ([] :: string) \<noteq> [] then makedirs decode_error_world [] else None) = None"
    by simp
  have h5: "mkdtemp decode_error_world = Inr ''/tmp/t''"
    by (simp add: decode_error_world_def scenario_world_def test_world_def)
  have h7: "is_Exception (Raise OtherException ''could not decode'')"
    by (simp add: is_Exception_def)
  show ?thesis
    using segmentation_failure_report [OF h1 h2 h3 h4 h5 decode_error_segment_audio_file h7]
      h5 decode_error_segment_audio_file h7
    by (simp add: decode_error_report_def)
qed

text \<open>
  When the clip cannot be decoded, the summary of the report is the empty dict, not a
  dict of zeros.
\<close>

theorem segmentation_failure_summary_counterexample:
  "process_audio_file decode_error_world ''a.wav'' ''m.h5'' None = Inr decode_error_report
   \<and> summary decode_error_report
       \<noteq> Some \<lparr>total_segments = 0, successful_predictions = 0, class_distribution = [],
                average_confidence = 0, dominant_class = None\<rparr>"
proof -
  have init: "AudioProcessor_init 3 (128, 128) (1 / 2) 1 = Inr default_processor"
    by (simp add: AudioProcessor_init_def default_processor_def)
  have d: "dirname ''a.wav'' = []" by code_simp
  have h5: "mkdtemp decode_error_world = Inr ''/tmp/t''"
    by (simp add: decode_error_world_def scenario_world_def test_world_def)
  have "process_audio_file decode_error_world ''a.wav'' ''m.h5'' None = Inr decode_error_report"
    by (simp add: process_audio_file_def with_processor_def init d h5
        decode_error_segment_audio_file is_Exception_def decode_error_report_def)
  then show ?thesis by (simp add: decode_error_report_def)
qed

end
